theory Spec2Isabelle
  imports Main
begin

section \<open>JavaScript strings\<close>

text \<open>
  A JavaScript string is a sequence of UTF-16 code units; \<open>.length\<close> and \<open>.slice\<close>
  count code units. A code unit is modelled as a natural number, a string as the list
  of its code units. ASCII literals of the source are written \<open>js ''...''\<close>.
\<close>

type_synonym jsstring = "nat list"

definition js :: "string \<Rightarrow> jsstring" where
  "js s = map of_char s"

definition NL :: jsstring where
  "NL = [0x0A]"

text \<open>
  \<open>String(n)\<close> and template interpolation of an integral number: its decimal digits,
  with a minus sign when negative.
\<close>

fun show_nat :: "nat \<Rightarrow> jsstring" where
  "show_nat n = (if n < 10 then [48 + n] else show_nat (n div 10) @ [48 + n mod 10])"

declare show_nat.simps [simp del]

definition show_int :: "int \<Rightarrow> jsstring" where
  "show_int i = (if i < 0 then 45 # show_nat (nat (- i)) else show_nat (nat i))"

text \<open>
  \<open>String(x?.id)\<close> of an optional numeric identity: \<open>undefined\<close> prints as the text
  \<open>undefined\<close>.
\<close>

definition String_id :: "int option \<Rightarrow> jsstring" where
  "String_id x = (case x of None \<Rightarrow> js ''undefined'' | Some i \<Rightarrow> show_int i)"

text \<open>
  \<open>a || b\<close> on optional numbers: the left operand when it is present and not zero,
  otherwise the right one.
\<close>

definition or_id :: "int option \<Rightarrow> int option \<Rightarrow> int option" where
  "or_id a b = (case a of None \<Rightarrow> b | Some x \<Rightarrow> if x \<noteq> 0 then Some x else b)"

text \<open>\<open>a || b\<close> on optional objects and on optional strings (the empty string is falsy).\<close>

definition or_obj :: "'a option \<Rightarrow> 'a option \<Rightarrow> 'a option" where
  "or_obj a b = (case a of None \<Rightarrow> b | Some x \<Rightarrow> Some x)"

definition or_str :: "jsstring option \<Rightarrow> jsstring option \<Rightarrow> jsstring option" where
  "or_str a b = (case a of None \<Rightarrow> b | Some x \<Rightarrow> if x \<noteq> [] then Some x else b)"

definition str_or_empty :: "jsstring option \<Rightarrow> jsstring" where
  "str_or_empty a = (case a of None \<Rightarrow> [] | Some x \<Rightarrow> x)"

section \<open>Regular expressions with the \<open>u\<close> flag\<close>

text \<open>
  With the \<open>u\<close> flag a pattern is matched against the code points of the string: a high
  surrogate followed by a low surrogate is one code point, any other code unit stands for
  itself.
\<close>

definition is_high_surrogate :: "nat \<Rightarrow> bool" where
  "is_high_surrogate u \<longleftrightarrow> 0xD800 \<le> u \<and> u \<le> 0xDBFF"

definition is_low_surrogate :: "nat \<Rightarrow> bool" where
  "is_low_surrogate u \<longleftrightarrow> 0xDC00 \<le> u \<and> u \<le> 0xDFFF"

fun code_points :: "jsstring \<Rightarrow> nat list" where
  "code_points [] = []"
| "code_points [u] = [u]"
| "code_points (h # l # rest) =
     (if is_high_surrogate h \<and> is_low_surrogate l
      then (0x10000 + (h - 0xD800) * 0x400 + (l - 0xDC00)) # code_points rest
      else h # code_points (l # rest))"

text \<open>
  A pattern is given by its matcher at a position: the number of code points the leftmost
  greedy match consumes there, or \<open>None\<close>. \<open>RegExp.prototype.test\<close> without the \<open>g\<close> flag
  tries every start position from the left.
\<close>

fun regex_search :: "(nat list \<Rightarrow> nat option) \<Rightarrow> nat list \<Rightarrow> bool" where
  "regex_search p [] = (p [] \<noteq> None)"
| "regex_search p (c # cs) = (p (c # cs) \<noteq> None \<or> regex_search p cs)"

text \<open>
  \<^verbatim>\<open>const THUMBS_UP_RE = /\u{1F44D}(?:\u{1F3FB}|\u{1F3FC}|\u{1F3FD}|\u{1F3FE}|\u{1F3FF})?/u;\<close>
\<close>

definition SKIN_TONES :: "nat list" where
  "SKIN_TONES = [0x1F3FB, 0x1F3FC, 0x1F3FD, 0x1F3FE, 0x1F3FF]"

fun THUMBS_UP_RE :: "nat list \<Rightarrow> nat option" where
  "THUMBS_UP_RE [] = None"
| "THUMBS_UP_RE (c # cs) =
     (if c = 0x1F44D
      then (case cs of
              [] \<Rightarrow> Some 1
            | d # _ \<Rightarrow> if d \<in> set SKIN_TONES then Some 2 else Some 1)
      else None)"

definition THUMBS_UP_RE_test :: "jsstring \<Rightarrow> bool" where
  "THUMBS_UP_RE_test s = regex_search THUMBS_UP_RE (code_points s)"

text \<open>\<open>String.fromCodePoint\<close>: the UTF-16 code units of one code point.\<close>

definition fromCodePoint :: "nat \<Rightarrow> jsstring" where
  "fromCodePoint c =
     (if c < 0x10000 then [c]
      else [0xD800 + (c - 0x10000) div 0x400, 0xDC00 + (c - 0x10000) mod 0x400])"

text \<open>
  \<^verbatim>\<open>const EMOJI_REGEX = /[\u{1F1E6}-\u{1F1FF}\u{1F300}-\u{1F5FF}\u{1F600}-\u{1F64F}
     \u{1F680}-\u{1F6FF}\u{2600}-\u{26FF}\u{2700}-\u{27BF}\u{1F900}-\u{1F9FF}\u{1FA70}-\u{1FAFF}]/u;
  function hasEmoji(text) {
    if (!text) return false;
    return EMOJI_REGEX.test(text);
  }\<close>
\<close>

definition emoji_class :: "nat \<Rightarrow> bool" where
  "emoji_class c \<longleftrightarrow>
     (0x1F1E6 \<le> c \<and> c \<le> 0x1F1FF) \<or> (0x1F300 \<le> c \<and> c \<le> 0x1F5FF) \<or>
     (0x1F600 \<le> c \<and> c \<le> 0x1F64F) \<or> (0x1F680 \<le> c \<and> c \<le> 0x1F6FF) \<or>
     (0x2600 \<le> c \<and> c \<le> 0x26FF) \<or> (0x2700 \<le> c \<and> c \<le> 0x27BF) \<or>
     (0x1F900 \<le> c \<and> c \<le> 0x1F9FF) \<or> (0x1FA70 \<le> c \<and> c \<le> 0x1FAFF)"

fun EMOJI_REGEX :: "nat list \<Rightarrow> nat option" where
  "EMOJI_REGEX [] = None"
| "EMOJI_REGEX (c # cs) = (if emoji_class c then Some 1 else None)"

definition hasEmoji :: "jsstring \<Rightarrow> bool" where
  "hasEmoji text = (if text = [] then False else regex_search EMOJI_REGEX (code_points text))"

section \<open>Text helpers\<close>

text \<open>
  \<^verbatim>\<open>const RLE = '\u202B'; const PDF = '\u202C'; const LRM = '\u200E';\<close>
\<close>

definition RLE :: jsstring where "RLE = [0x202B]"
definition PDF :: jsstring where "PDF = [0x202C]"
definition LRM :: jsstring where "LRM = [0x200E]"

text \<open>
  \<^verbatim>\<open>function htmlEscape(s) {
    return String(s).replace(/&/g, '&amp;').replace(/</g, '&lt;').replace(/>/g, '&gt;');
  }\<close>
\<close>

definition replace_all :: "nat \<Rightarrow> jsstring \<Rightarrow> jsstring \<Rightarrow> jsstring" where
  "replace_all c r s = concat (map (\<lambda>x. if x = c then r else [x]) s)"

definition htmlEscape :: "jsstring \<Rightarrow> jsstring" where
  "htmlEscape s =
     replace_all 0x3E (js ''&gt;'') (replace_all 0x3C (js ''&lt;'') (replace_all 0x26 (js ''&amp;'') s))"

text \<open>
  The class \<open>\s\<close>, which is also the set of characters \<open>trim()\<close> strips: tab, line feed,
  vertical tab, form feed, carriage return, space, no-break space, U+1680, U+2000 to
  U+200A, U+2028, U+2029, U+202F, U+205F, U+3000 and U+FEFF.
\<close>

definition is_space :: "nat \<Rightarrow> bool" where
  "is_space c \<longleftrightarrow>
     (0x09 \<le> c \<and> c \<le> 0x0D) \<or> c = 0x20 \<or> c = 0xA0 \<or> c = 0x1680 \<or>
     (0x2000 \<le> c \<and> c \<le> 0x200A) \<or> c = 0x2028 \<or> c = 0x2029 \<or> c = 0x202F \<or>
     c = 0x205F \<or> c = 0x3000 \<or> c = 0xFEFF"

text \<open>
  \<open>replace(/\s+/g, ' ')\<close>: every maximal run of white space becomes one space. The flag
  says whether the previous character was white space (its run has been replaced already).
\<close>

fun collapse_ws :: "bool \<Rightarrow> jsstring \<Rightarrow> jsstring" where
  "collapse_ws in_run [] = []"
| "collapse_ws in_run (c # cs) =
     (if is_space c
      then (if in_run then collapse_ws True cs else 0x20 # collapse_ws True cs)
      else c # collapse_ws False cs)"

definition trim :: "jsstring \<Rightarrow> jsstring" where
  "trim s = rev (dropWhile is_space (rev (dropWhile is_space s)))"

text \<open>\<open>s.slice(0, e)\<close>: a negative end counts from the end of the string.\<close>

definition slice0 :: "jsstring \<Rightarrow> int \<Rightarrow> jsstring" where
  "slice0 s e = (if e < 0 then take (nat (int (length s) + e)) s else take (nat e) s)"

text \<open>
  \<^verbatim>\<open>function snippet(s, max = 140) {
    if (!s) return '';
    const clean = String(s).replace(/\s+/g, ' ').trim();
    return clean.length > max ? `${clean.slice(0, max - 1)}...` : clean;
  }\<close>
  The suffix literal is the three code units U+201A U+00C4 U+00B6 in the file under
  \<open>src/api/cron.js\<close> (a horizontal ellipsis in the variant under \<open>src/unnamed\<close>).
\<close>

definition ELLIPSIS :: jsstring where
  "ELLIPSIS = [0x201A, 0xC4, 0xB6]"

definition snippet :: "jsstring \<Rightarrow> int \<Rightarrow> jsstring" where
  "snippet s mx =
     (if s = [] then []
      else let clean = trim (collapse_ws False s)
           in if int (length clean) > mx then slice0 clean (mx - 1) @ ELLIPSIS else clean)"





text \<open>
  \<^verbatim>\<open>function taskTitle(text) {
    const first = String(text || '').split(/\r?\n/)[0].trim();
    return snippet(first, 200);
  }\<close>
  \<open>first_line\<close> is \<open>split(/\r?\n/)[0]\<close>: the text before the first line break.
\<close>

fun first_line :: "jsstring \<Rightarrow> jsstring" where
  "first_line [] = []"
| "first_line (c # cs) =
     (if c = 0x0A then []
      else if c = 0x0D \<and> (case cs of [] \<Rightarrow> False | d # _ \<Rightarrow> d = 0x0A) then []
      else c # first_line cs)"

definition taskTitle :: "jsstring \<Rightarrow> jsstring" where
  "taskTitle text = snippet (trim (first_line text)) 200"

section \<open>ageDays\<close>

text \<open>
  \<^verbatim>\<open>function ageDays(fromTs, nowTs = Date.now()) {
    if (!fromTs || fromTs > nowTs) return 0;
    return Math.floor((nowTs - fromTs) / (24 * 60 * 60 * 1000));
  }\<close>
  Timestamps are integral milliseconds; a missing \<open>fromTs\<close> (\<open>undefined\<close>) is \<open>None\<close>.
  \<open>div\<close> on \<open>int\<close> rounds towards minus infinity, as \<open>Math.floor\<close> of the quotient does.
\<close>

definition ageDays :: "int option \<Rightarrow> int \<Rightarrow> int" where
  "ageDays fromTs nowTs =
     (case fromTs of
        None \<Rightarrow> 0
      | Some f \<Rightarrow> if f = 0 \<or> f > nowTs then 0 else (nowTs - f) div (24 * 60 * 60 * 1000))"

section \<open>chunkMessages\<close>

text \<open>
  \<^verbatim>\<open>function chunkMessages(lines, maxLen = 3800) {
    const chunks = [];
    let cur = '';
    for (const line of lines) {
      const add = (line ? line : '') + '\n';
      if ((cur + add).length > maxLen) {
        if (cur) chunks.push(cur);
        cur = '';
      }
      cur += add;
    }
    if (cur) chunks.push(cur);
    return chunks;
  }\<close>
  The loop carries \<open>chunks\<close> and \<open>cur\<close>; \<open>maxLen\<close> is any integer.
\<close>

definition add_nl :: "jsstring \<Rightarrow> jsstring" where
  "add_nl line = line @ NL"

definition push_cur :: "jsstring list \<Rightarrow> jsstring \<Rightarrow> jsstring list" where
  "push_cur chunks cur = (if cur \<noteq> [] then chunks @ [cur] else chunks)"

fun chunk_loop :: "jsstring list \<Rightarrow> int \<Rightarrow> jsstring list \<Rightarrow> jsstring \<Rightarrow> jsstring list" where
  "chunk_loop [] maxLen chunks cur = push_cur chunks cur"
| "chunk_loop (line # lines) maxLen chunks cur =
     (let add = add_nl line in
      if int (length (cur @ add)) > maxLen
      then chunk_loop lines maxLen (push_cur chunks cur) ([] @ add)
      else chunk_loop lines maxLen chunks (cur @ add))"

definition chunkMessages :: "jsstring list \<Rightarrow> int \<Rightarrow> jsstring list" where
  "chunkMessages lines maxLen = chunk_loop lines maxLen [] []"


text \<open>
  \<open>chunk_ok S m c\<close>: the chunk \<open>c\<close> is within the bound \<open>m\<close>, or it is one of the strings
  in \<open>S\<close> (used with \<open>S\<close> the set of single lines, each with its newline).
\<close>

definition chunk_ok :: "jsstring set \<Rightarrow> int \<Rightarrow> jsstring \<Rightarrow> bool" where
  "chunk_ok S m c \<longleftrightarrow> int (length c) \<le> m \<or> c \<in> S"

section \<open>Telegram updates\<close>

text \<open>
  The fields of an update that the program reads. A field that may be missing is an
  option; identities and times are integers, texts are strings. Field names carry the
  record's prefix (\<open>m_\<close> message, \<open>mr_\<close> reaction, \<open>u_\<close> update, \<open>t_\<close> task), as the same
  JavaScript name occurs in several objects.
\<close>

record chat =
  chat_id :: int
  chat_type :: jsstring
  chat_title :: "jsstring option"
  chat_username :: "jsstring option"

text \<open>
  \<open>m_from_id\<close> is \<open>m.from?.id\<close>; \<open>m_reply_to_message\<close> is the \<open>message_id\<close> of the
  \<open>reply_to_message\<close> object when the message has one.
\<close>

record message =
  m_chat :: "chat option"
  m_from_id :: "int option"
  m_message_id :: int
  m_date :: "int option"
  m_text :: "jsstring option"
  m_caption :: "jsstring option"
  m_reply_to_message :: "int option"

text \<open>
  One entry of a reaction list: \<open>null\<close>, a string, or an object with optional string
  fields \<open>emoji\<close> and \<open>value\<close>. A reaction field holds an array of entries or one entry.
\<close>

datatype ritem = RNull | RStr jsstring | RObj "jsstring option" "jsstring option"

datatype rfield = RSingle ritem | RArr "ritem list"

text \<open>
  \<open>mr_user_id\<close> is \<open>mr.user?.id\<close>, \<open>mr_from_id\<close> is \<open>mr.from?.id\<close>,
  \<open>mr_message_message_id\<close> is \<open>mr.message?.message_id\<close>.
\<close>

record message_reaction =
  mr_chat :: "chat option"
  mr_user_id :: "int option"
  mr_from_id :: "int option"
  mr_new_reaction :: "rfield option"
  mr_new_reactions :: "rfield option"
  mr_reaction :: "rfield option"
  mr_reactions :: "rfield option"
  mr_message_id :: "int option"
  mr_message_message_id :: "int option"
  mr_msg_id :: "int option"

text \<open>\<open>u_user_id\<close> is \<open>u.user?.id\<close>, \<open>u_from_id\<close> is \<open>u.from?.id\<close>.\<close>

record update =
  update_id :: int
  u_message_reaction :: "message_reaction option"
  u_messageReaction :: "message_reaction option"
  u_message :: "message option"
  u_channel_post :: "message option"
  u_user_id :: "int option"
  u_from_id :: "int option"

text \<open>
  \<^verbatim>\<open>function extractReactionEmojis(r) {
    if (!r) return [];
    let arr = r.new_reaction || r.new_reactions || r.reaction || r.reactions || [];
    if (!Array.isArray(arr)) arr = [arr];
    const out = [];
    for (const it of arr) {
      if (!it) continue;
      if (typeof it === 'string') out.push(it);
      else if (typeof it.emoji === 'string') out.push(it.emoji);
      else if (typeof it.value === 'string') out.push(it.value);
    }
    return out;
  }\<close>
  An array is truthy even when empty; a single entry is truthy unless it is \<open>null\<close> or the
  empty string.
\<close>

definition truthy_item :: "ritem \<Rightarrow> bool" where
  "truthy_item it = (case it of RNull \<Rightarrow> False | RStr s \<Rightarrow> s \<noteq> [] | RObj e v \<Rightarrow> True)"

definition or_field :: "rfield option \<Rightarrow> rfield option \<Rightarrow> rfield option" where
  "or_field a b =
     (case a of
        None \<Rightarrow> b
      | Some (RArr xs) \<Rightarrow> Some (RArr xs)
      | Some (RSingle it) \<Rightarrow> if truthy_item it then Some (RSingle it) else b)"

fun emojis_of :: "ritem list \<Rightarrow> jsstring list" where
  "emojis_of [] = []"
| "emojis_of (it # its) =
     (case it of
        RNull \<Rightarrow> emojis_of its
      | RStr s \<Rightarrow> if s = [] then emojis_of its else s # emojis_of its
      | RObj e v \<Rightarrow>
          (case e of
             Some s \<Rightarrow> s # emojis_of its
           | None \<Rightarrow> (case v of Some s \<Rightarrow> s # emojis_of its | None \<Rightarrow> emojis_of its)))"

definition extractReactionEmojis :: "message_reaction \<Rightarrow> jsstring list" where
  "extractReactionEmojis r =
     (let arr = (case or_field (mr_new_reaction r) (or_field (mr_new_reactions r)
                        (or_field (mr_reaction r) (mr_reactions r))) of
                   None \<Rightarrow> []
                 | Some (RArr xs) \<Rightarrow> xs
                 | Some (RSingle it) \<Rightarrow> if truthy_item it then [it] else [])
      in emojis_of arr)"

section \<open>The task ledger\<close>

text \<open>
  The record the program serialises with \<open>JSON.stringify\<close>:
  \<^verbatim>\<open>{ id, chat_id, message_id, createdAt, text, done }\<close>, with \<open>doneAt\<close> added on a close.
\<close>

record task =
  t_id :: jsstring
  t_chat_id :: int
  t_message_id :: int
  t_createdAt :: int
  t_text :: jsstring
  t_done :: bool
  t_doneAt :: "int option"

text \<open>
  What the store holds under a key, seen through \<open>JSON.parse\<close>: the empty string (falsy,
  skipped before parsing), a text that \<open>JSON.parse\<close> rejects, or a serialised task.
  \<open>JSON.parse (JSON.stringify obj)\<close> gives \<open>obj\<close> back for these fields, so the store is
  modelled at the level of the decoded value. JSON values of another shape (numbers,
  arrays, objects without these fields), which the program never writes, are not modelled.
\<close>

datatype stored = EmptyValue | Unparsable | Json task

datatype error =
    RedisGetFailed | RedisSetFailed | RedisScanFailed | JsonSyntaxError
  | GetUpdatesError | FetchRejected

text \<open>
  The key-value collaborator: its contents, and which requests it answers with a failure
  (\<open>if (!res.ok) throw\<close>). A failed \<open>set\<close> writes nothing; the boolean \<open>kv.set\<close> returns
  is ignored by every caller. \<open>scan_reply\<close> is its answer to
  \<open>scan(cursor, match, 200)\<close>, after \<open>kv.scan\<close> has normalised it to \<open>{cursor, keys}\<close>.
\<close>

record kvstore =
  contents :: "jsstring \<Rightarrow> stored option"
  get_fails :: "jsstring \<Rightarrow> bool"
  set_fails :: "jsstring \<Rightarrow> bool"
  scan_reply :: "jsstring \<Rightarrow> jsstring \<Rightarrow> error + (jsstring \<times> jsstring list)"

definition kv_get :: "kvstore \<Rightarrow> jsstring \<Rightarrow> error + stored option" where
  "kv_get kv key = (if get_fails kv key then Inl RedisGetFailed else Inr (contents kv key))"

definition kv_set :: "kvstore \<Rightarrow> jsstring \<Rightarrow> stored \<Rightarrow> error + kvstore" where
  "kv_set kv key v =
     (if set_fails kv key then Inl RedisSetFailed
      else Inr (kv\<lparr>contents := (contents kv)(key \<mapsto> v)\<rparr>))"

text \<open>\<open>try { body } catch {}\<close> around store calls: a throw leaves the store as it was.\<close>

definition try_catch :: "kvstore \<Rightarrow> error + kvstore \<Rightarrow> kvstore" where
  "try_catch kv r = (case r of Inl e \<Rightarrow> kv | Inr kv' \<Rightarrow> kv')"

text \<open>
  The block both close branches run, with \<open>now\<close> the reading of \<open>Date.now()\<close>:
  \<^verbatim>\<open>const val = await kv.get(taskKey);
  if (val) {
    const obj = JSON.parse(val);
    obj.done = true;
    obj.doneAt = Date.now();
    await kv.set(taskKey, JSON.stringify(obj));
  }\<close>
\<close>

definition close_task :: "int \<Rightarrow> kvstore \<Rightarrow> jsstring \<Rightarrow> error + kvstore" where
  "close_task now kv taskKey =
     (case kv_get kv taskKey of
        Inl e \<Rightarrow> Inl e
      | Inr None \<Rightarrow> Inr kv
      | Inr (Some EmptyValue) \<Rightarrow> Inr kv
      | Inr (Some Unparsable) \<Rightarrow> Inl JsonSyntaxError
      | Inr (Some (Json obj)) \<Rightarrow>
          kv_set kv taskKey (Json (obj\<lparr>t_done := True, t_doneAt := Some now\<rparr>)))"

text \<open>\<^verbatim>\<open>`task:${chat.id}:${message_id}`\<close>\<close>

definition task_key :: "int \<Rightarrow> int \<Rightarrow> jsstring" where
  "task_key cid mid = js ''task:'' @ show_int cid @ js '':'' @ show_int mid"

section \<open>Applying one update\<close>

text \<open>
  The body of \<^verbatim>\<open>for (const u of updates)\<close> in the handler (lines 189 to 253), with
  \<open>admin\<close> the value of \<open>String(ADMIN_CHAT_ID)\<close>. First the reaction branch:
  \<^verbatim>\<open>const chat = mr.chat;
  const actorId = mr.user?.id || mr.from?.id || u.user?.id || u.from?.id;
  if (chat && chat.type === 'private' && String(actorId) === String(ADMIN_CHAT_ID)) {
    const emojis = extractReactionEmojis(mr);
    const hasThumb = emojis.some((e) => typeof e === 'string' && THUMBS_UP_RE.test(e));
    const targetMsgId = mr.message_id || mr.message?.message_id || mr.msg_id;
    if (hasThumb && targetMsgId) { const taskKey = `task:${chat.id}:${targetMsgId}`; ... }
  }\<close>
\<close>

definition apply_reaction :: "jsstring \<Rightarrow> int \<Rightarrow> kvstore \<Rightarrow> update \<Rightarrow> message_reaction \<Rightarrow> error + kvstore" where
  "apply_reaction admin now kv u mr =
     (case mr_chat mr of
        None \<Rightarrow> Inr kv
      | Some chat \<Rightarrow>
          let actorId = or_id (mr_user_id mr) (or_id (mr_from_id mr) (or_id (u_user_id u) (u_from_id u)))
          in if chat_type chat = js ''private'' \<and> String_id actorId = admin
             then let emojis = extractReactionEmojis mr;
                      hasThumb = list_ex THUMBS_UP_RE_test emojis;
                      targetMsgId = or_id (mr_message_id mr) (or_id (mr_message_message_id mr) (mr_msg_id mr))
                  in (case targetMsgId of
                        None \<Rightarrow> Inr kv
                      | Some target \<Rightarrow>
                          if hasThumb \<and> target \<noteq> 0
                          then close_task now kv (task_key (chat_id chat) target)
                          else Inr kv)
             else Inr kv)"

text \<open>
  Then the message branch:
  \<^verbatim>\<open>const text = m.text || m.caption || '';
  const isThumb = text ? THUMBS_UP_RE.test(text) : false;
  const keyBase = `task:${chat.id}:${m.message_id}`;
  if (m.reply_to_message) {
    if (isThumb) { ... close the task at `task:${chat.id}:${replied.message_id}` ... }
  } else {
    if (text && !isThumb) {
      const task = { id: `${chat.id}:${m.message_id}`, chat_id: chat.id,
        message_id: m.message_id, createdAt: (m.date || 0) * 1000,
        text: snippet(text, 400), done: false };
      try { await kv.set(keyBase, JSON.stringify(task)); } catch {}
    }
  }\<close>
\<close>

definition message_text :: "message \<Rightarrow> jsstring" where
  "message_text m = str_or_empty (or_str (m_text m) (m_caption m))"

definition new_task :: "chat \<Rightarrow> message \<Rightarrow> task" where
  "new_task chat m =
     \<lparr>t_id = show_int (chat_id chat) @ js '':'' @ show_int (m_message_id m),
      t_chat_id = chat_id chat,
      t_message_id = m_message_id m,
      t_createdAt = (case m_date m of None \<Rightarrow> 0 | Some d \<Rightarrow> d) * 1000,
      t_text = snippet (message_text m) 400,
      t_done = False,
      t_doneAt = None\<rparr>"

definition apply_message :: "jsstring \<Rightarrow> int \<Rightarrow> kvstore \<Rightarrow> message \<Rightarrow> kvstore" where
  "apply_message admin now kv m =
     (case m_chat m of
        None \<Rightarrow> kv
      | Some chat \<Rightarrow>
          if chat_type chat \<noteq> js ''private'' then kv
          else if String_id (m_from_id m) \<noteq> admin then kv
          else let text = message_text m;
                   isThumb = (if text \<noteq> [] then THUMBS_UP_RE_test text else False);
                   keyBase = task_key (chat_id chat) (m_message_id m)
               in (case m_reply_to_message m of
                     Some replied \<Rightarrow>
                       if isThumb
                       then try_catch kv (close_task now kv (task_key (chat_id chat) replied))
                       else kv
                   | None \<Rightarrow>
                       if text \<noteq> [] \<and> \<not> isThumb
                       then try_catch kv (kv_set kv keyBase (Json (new_task chat m)))
                       else kv))"

definition apply_update :: "jsstring \<Rightarrow> int \<Rightarrow> kvstore \<Rightarrow> update \<Rightarrow> kvstore" where
  "apply_update admin now kv u =
     (case or_obj (u_message_reaction u) (u_messageReaction u) of
        Some mr \<Rightarrow> try_catch kv (apply_reaction admin now kv u mr)
      | None \<Rightarrow> (case u_message u of None \<Rightarrow> kv | Some m \<Rightarrow> apply_message admin now kv m))"

text \<open>
  The loop over the drained updates, in feed order. \<open>clock i\<close> is the reading of
  \<open>Date.now()\<close> while update number \<open>i\<close> is applied.
\<close>

fun apply_updates :: "jsstring \<Rightarrow> (nat \<Rightarrow> int) \<Rightarrow> nat \<Rightarrow> kvstore \<Rightarrow> update list \<Rightarrow> kvstore" where
  "apply_updates admin clock i kv [] = kv"
| "apply_updates admin clock i kv (u # us) =
     apply_updates admin clock (Suc i) (apply_update admin (clock i) kv u) us"

text \<open>
  The decision the loop body takes, read off its guards in their order: which store
  operation, if any, an update leads to. \<open>apply_action\<close> is that operation.
\<close>

datatype action =
    ReactionClose jsstring
  | ReplyClose jsstring
  | CreateTask jsstring task
  | Ignore

definition classify_reaction :: "jsstring \<Rightarrow> update \<Rightarrow> message_reaction \<Rightarrow> action" where
  "classify_reaction admin u mr =
     (case mr_chat mr of
        None \<Rightarrow> Ignore
      | Some chat \<Rightarrow>
          if chat_type chat = js ''private'' \<and>
             String_id (or_id (mr_user_id mr) (or_id (mr_from_id mr) (or_id (u_user_id u) (u_from_id u)))) = admin
          then (case or_id (mr_message_id mr) (or_id (mr_message_message_id mr) (mr_msg_id mr)) of
                  None \<Rightarrow> Ignore
                | Some target \<Rightarrow>
                    if list_ex THUMBS_UP_RE_test (extractReactionEmojis mr) \<and> target \<noteq> 0
                    then ReactionClose (task_key (chat_id chat) target)
                    else Ignore)
          else Ignore)"

definition classify_message :: "jsstring \<Rightarrow> message \<Rightarrow> action" where
  "classify_message admin m =
     (case m_chat m of
        None \<Rightarrow> Ignore
      | Some chat \<Rightarrow>
          if chat_type chat \<noteq> js ''private'' then Ignore
          else if String_id (m_from_id m) \<noteq> admin then Ignore
          else (case m_reply_to_message m of
                  Some replied \<Rightarrow>
                    if message_text m \<noteq> [] \<and> THUMBS_UP_RE_test (message_text m)
                    then ReplyClose (task_key (chat_id chat) replied)
                    else Ignore
                | None \<Rightarrow>
                    if message_text m \<noteq> [] \<and> \<not> THUMBS_UP_RE_test (message_text m)
                    then CreateTask (task_key (chat_id chat) (m_message_id m)) (new_task chat m)
                    else Ignore))"

definition classify :: "jsstring \<Rightarrow> update \<Rightarrow> action" where
  "classify admin u =
     (case or_obj (u_message_reaction u) (u_messageReaction u) of
        Some mr \<Rightarrow> classify_reaction admin u mr
      | None \<Rightarrow> (case u_message u of None \<Rightarrow> Ignore | Some m \<Rightarrow> classify_message admin m))"

definition apply_action :: "int \<Rightarrow> kvstore \<Rightarrow> action \<Rightarrow> kvstore" where
  "apply_action now kv a =
     (case a of
        ReactionClose k \<Rightarrow> try_catch kv (close_task now kv k)
      | ReplyClose k \<Rightarrow> try_catch kv (close_task now kv k)
      | CreateTask k t \<Rightarrow> try_catch kv (kv_set kv k (Json t))
      | Ignore \<Rightarrow> kv)"

text \<open>The key an action closes, and the key it creates a task at.\<close>

definition closes :: "action \<Rightarrow> jsstring \<Rightarrow> bool" where
  "closes a k = (a = ReactionClose k \<or> a = ReplyClose k)"


section \<open>fetchAllUpdates\<close>

text \<open>
  \<^verbatim>\<open>async function fetchAllUpdates(startOffset) {
    let offset = startOffset;
    const all = [];
    while (true) {
      const resp = await t.getUpdates(offset);
      if (!resp.ok) throw new Error(`getUpdates error: ${JSON.stringify(resp)}`);
      const updates = resp.result || [];
      if (updates.length === 0) break;
      all.push(...updates);
      offset = updates[updates.length - 1].update_id + 1;
      if (all.length > 2000) break; // safety cap
    }
    return { updates: all, nextOffset: offset };
  }\<close>
  The fetch capability \<open>getUpdates\<close> answers an offset (\<open>None\<close> is \<open>undefined\<close>) with a
  response, or rejects. The loop ends: each round that continues has lengthened \<open>all\<close>,
  which stays below 2001.
\<close>

record resp =
  resp_ok :: bool
  resp_result :: "update list option"

function fetch_loop ::
  "(int option \<Rightarrow> error + resp) \<Rightarrow> int option \<Rightarrow> update list \<Rightarrow> error + (update list \<times> int option)" where
  "fetch_loop getUpdates offset all =
     (case getUpdates offset of
        Inl e \<Rightarrow> Inl e
      | Inr r \<Rightarrow>
          if \<not> resp_ok r then Inl GetUpdatesError
          else let updates = (case resp_result r of None \<Rightarrow> [] | Some us \<Rightarrow> us)
               in if length updates = 0 then Inr (all, offset)
                  else if length (all @ updates) > 2000
                       then Inr (all @ updates, Some (update_id (last updates) + 1))
                       else fetch_loop getUpdates (Some (update_id (last updates) + 1)) (all @ updates))"
  by pat_completeness auto
termination
  by (relation "measure (\<lambda>(g, offset, all). 2001 - length all)")
    (auto split: option.splits simp: neq_Nil_conv)

declare fetch_loop.simps [simp del]

definition fetchAllUpdates ::
  "(int option \<Rightarrow> error + resp) \<Rightarrow> int option \<Rightarrow> error + (update list \<times> int option)" where
  "fetchAllUpdates getUpdates startOffset = fetch_loop getUpdates startOffset []"

text \<open>
  The batches a run of the drainer fetches, described independently of the loop:
  \<open>batches g off bs off'\<close> says that, starting at cursor \<open>off\<close>, the capability returned
  the non-empty batches \<open>bs\<close> one after the other, each requested at the cursor the
  previous one left (the last sequence number of the batch plus one), ending at cursor \<open>off'\<close>.
\<close>

definition batch_of :: "(int option \<Rightarrow> error + resp) \<Rightarrow> int option \<Rightarrow> update list option" where
  "batch_of g off =
     (case g off of
        Inl e \<Rightarrow> None
      | Inr r \<Rightarrow> if resp_ok r then Some (case resp_result r of None \<Rightarrow> [] | Some us \<Rightarrow> us) else None)"

fun batches :: "(int option \<Rightarrow> error + resp) \<Rightarrow> int option \<Rightarrow> update list list \<Rightarrow> int option \<Rightarrow> bool" where
  "batches g off [] off' = (off' = off)"
| "batches g off (b # bs) off' =
     (b \<noteq> [] \<and> batch_of g off = Some b \<and> batches g (Some (update_id (last b) + 1)) bs off')"

section \<open>The report\<close>

text \<open>
  \<^verbatim>\<open>const tasks = [];
  for (const k of keys) {
    try {
      const v = await kv.get(k);
      if (!v) continue;
      const obj = JSON.parse(v);
      if (!obj.done) tasks.push(obj);
    } catch {}
  }
  tasks.sort((a, b) => a.createdAt - b.createdAt);
  lines = tasks.map((t) => formatTaskLine(t, now));\<close>
  \<open>Array.prototype.sort\<close> is stable, as \<open>sort_key\<close> is.
\<close>

fun open_tasks :: "kvstore \<Rightarrow> jsstring list \<Rightarrow> task list" where
  "open_tasks kv [] = []"
| "open_tasks kv (k # ks) =
     (case kv_get kv k of
        Inl e \<Rightarrow> open_tasks kv ks
      | Inr None \<Rightarrow> open_tasks kv ks
      | Inr (Some EmptyValue) \<Rightarrow> open_tasks kv ks
      | Inr (Some Unparsable) \<Rightarrow> open_tasks kv ks
      | Inr (Some (Json obj)) \<Rightarrow> if \<not> t_done obj then obj # open_tasks kv ks else open_tasks kv ks)"

definition report_tasks :: "kvstore \<Rightarrow> jsstring list \<Rightarrow> task list" where
  "report_tasks kv keys = sort_key t_createdAt (open_tasks kv keys)"

text \<open>
  \<^verbatim>\<open>function formatTaskLine(t, nowTs) {
    const days = ageDays(t.createdAt, nowTs);
    const title = taskTitle(t.text);
    return `* ${htmlEscape(title)} <b>${LRM}[${days}d]</b>`;
  }\<close>
  The bullet literal is the three code units U+201A U+00C4 U+00A2 in the file.
\<close>

definition BULLET :: jsstring where
  "BULLET = [0x201A, 0xC4, 0xA2]"

definition formatTaskLine :: "task \<Rightarrow> int \<Rightarrow> jsstring" where
  "formatTaskLine t nowTs =
     (let days = ageDays (Some (t_createdAt t)) nowTs;
          title = taskTitle (t_text t)
      in BULLET @ js '' '' @ htmlEscape title @ js '' <b>'' @ LRM @ js ''['' @ show_int days @ js ''d]</b>'')"

text \<open>
  The key enumeration:
  \<^verbatim>\<open>let cursor = '0';
  const match = `task:${ADMIN_CHAT_ID}:*`;
  do {
    const out = await kv.scan(cursor, match, 200);
    cursor = out.cursor || '0';
    for (const k of out.keys || []) keys.push(k);
  } while (cursor !== '0' && keys.length < 5000);\<close>
  inside \<open>try { } catch {}\<close>: a failed scan keeps the keys gathered so far. The loop need
  not end (a store that never reports cursor \<open>0\<close> and returns no keys); \<open>None\<close> is that case.
\<close>

partial_function (option) scan_loop ::
  "(jsstring \<Rightarrow> error + (jsstring \<times> jsstring list)) \<Rightarrow> jsstring \<Rightarrow> jsstring list \<Rightarrow> jsstring list option" where
  "scan_loop sc cursor keys =
     (case sc cursor of
        Inl e \<Rightarrow> Some keys
      | Inr out \<Rightarrow>
          let cursor' = (if fst out = [] then js ''0'' else fst out);
              keys' = keys @ snd out
          in if cursor' \<noteq> js ''0'' \<and> length keys' < 5000
             then scan_loop sc cursor' keys'
             else Some keys')"

definition scan_keys :: "kvstore \<Rightarrow> jsstring \<Rightarrow> jsstring list option" where
  "scan_keys kv admin = scan_loop (scan_reply kv (js ''task:'' @ admin @ js '':*'')) (js ''0'') []"

section \<open>The HTTP entry point\<close>

text \<open>
  The environment variables, the request, and the collaborators of one run. \<open>key_param\<close>
  is \<open>searchParams.get('key')\<close> of the request URL (\<open>None\<close> when the parameter is absent
  or the URL does not parse). \<open>clock\<close> gives \<open>Date.now()\<close> during the apply loop,
  \<open>run_now\<close> is its reading for the report. \<open>send_rejects\<close> tells for which texts
  \<open>t.sendMessage\<close> rejects. \<open>formatDate\<close> stands for the platform's
  \<open>new Date(ts).toISOString().slice(0, 10)\<close>.
\<close>

record config =
  TG_TOKEN :: "jsstring option"
  ADMIN_CHAT_ID :: "jsstring option"
  CRON_SECRET :: "jsstring option"
  UPSTASH_URL :: "jsstring option"
  UPSTASH_TOKEN :: "jsstring option"

record request =
  key_param :: "jsstring option"

record world =
  getUpdates :: "int option \<Rightarrow> error + resp"
  store :: kvstore
  clock :: "nat \<Rightarrow> int"
  run_now :: int
  send_rejects :: "jsstring \<Rightarrow> bool"
  formatDate :: "int \<Rightarrow> jsstring"

text \<open>
  The response: \<open>ErrorMsg s\<close> is \<open>{ error: s }\<close> with a fixed text, \<open>ErrorOf e\<close> is
  \<open>{ error: String(err) }\<close> for a caught error, \<open>OkBody ok checked reported\<close> is
  \<open>{ ok, checked, reported }\<close>.
\<close>

datatype body = ErrorMsg jsstring | ErrorOf error | OkBody bool nat nat

record response =
  status :: nat
  body :: body

definition truthy_str :: "jsstring option \<Rightarrow> bool" where
  "truthy_str a = (case a of None \<Rightarrow> False | Some s \<Rightarrow> s \<noteq> [])"

definition haveKV :: "config \<Rightarrow> bool" where
  "haveKV cfg = (truthy_str (UPSTASH_URL cfg) \<and> truthy_str (UPSTASH_TOKEN cfg))"

text \<open>
  The fallback report, without a store:
  \<^verbatim>\<open>const candidates = updates.filter((u) => {
    const m = u.message || u.channel_post;
    const ts = m?.date ? m.date * 1000 : 0;
    if (!ts || ts < since) return false;
    const text = m?.text || m?.caption || '';
    if (!text) return false;
    return !hasEmoji(text);
  });
  lines = candidates.map((u) => {
    const m = u.message || u.channel_post;
    const ts = m?.date ? m.date * 1000 : Date.now();
    const label = (m?.chat?.title || m?.chat?.username || `chat:${m?.chat?.id}`);
    const txt = snippet(m?.text || m?.caption || '');
    return `* <b>${htmlEscape(label)}</b> <i>${LRM}[${formatDate(ts)}]</i>: ${htmlEscape(txt)}`;
  });\<close>
\<close>

definition message_ts :: "message \<Rightarrow> int" where
  "message_ts m = (case m_date m of None \<Rightarrow> 0 | Some d \<Rightarrow> if d \<noteq> 0 then d * 1000 else 0)"

definition is_candidate :: "int \<Rightarrow> update \<Rightarrow> bool" where
  "is_candidate since u =
     (case or_obj (u_message u) (u_channel_post u) of
        None \<Rightarrow> False
      | Some m \<Rightarrow>
          if message_ts m = 0 \<or> message_ts m < since then False
          else if message_text m = [] then False
          else \<not> hasEmoji (message_text m))"

definition chat_label :: "chat option \<Rightarrow> jsstring" where
  "chat_label c =
     (case c of
        None \<Rightarrow> js ''chat:undefined''
      | Some ch \<Rightarrow>
          (case or_str (chat_title ch) (chat_username ch) of
             Some l \<Rightarrow> if l \<noteq> [] then l else js ''chat:'' @ show_int (chat_id ch)
           | None \<Rightarrow> js ''chat:'' @ show_int (chat_id ch)))"

definition fallback_line :: "world \<Rightarrow> update \<Rightarrow> jsstring" where
  "fallback_line w u =
     (case or_obj (u_message u) (u_channel_post u) of
        None \<Rightarrow> BULLET @ js '' <b>chat:undefined</b> <i>'' @ LRM @ js ''['' @ formatDate w (run_now w)
                 @ js '']</i>: ''
      | Some m \<Rightarrow>
          let ts = (if message_ts m \<noteq> 0 then message_ts m else run_now w);
              label = chat_label (m_chat m);
              txt = snippet (message_text m) 140
          in BULLET @ js '' <b>'' @ htmlEscape label @ js ''</b> <i>'' @ LRM @ js ''['' @ formatDate w ts
             @ js '']</i>: '' @ htmlEscape txt)"

text \<open>
  The lines of the report and its header. With a store: the updates are applied, the keys
  enumerated, the open tasks listed. Without: the recent messages free of emoji.
  The header icon literal is the four code units U+F8FF U+00FC U+00FC U+00A2 in the file.
\<close>

definition report_lines :: "config \<Rightarrow> world \<Rightarrow> update list \<Rightarrow> jsstring list option" where
  "report_lines cfg w updates =
     (let admin = str_or_empty (ADMIN_CHAT_ID cfg)
      in if haveKV cfg
         then (let kv = apply_updates admin (clock w) 0 (store w) updates
               in case scan_keys kv admin of
                    None \<Rightarrow> None
                  | Some keys \<Rightarrow> Some (map (\<lambda>t. formatTaskLine t (run_now w)) (report_tasks kv keys)))
         else Some (map (fallback_line w)
                      (filter (is_candidate (run_now w - 24 * 60 * 60 * 1000)) updates)))"

definition report_header :: "config \<Rightarrow> nat \<Rightarrow> jsstring" where
  "report_header cfg n =
     (if haveKV cfg
      then js ''<b>'' @ [0xF8FF, 0xFC, 0xFC, 0xA2] @ js '' Open tasks: '' @ show_nat n @ js ''</b>''
      else js ''<b>No-emoji messages in last 24h: '' @ show_nat n @ js ''</b>'')"

text \<open>
  \<^verbatim>\<open>const payload = [];
  if (header) payload.push(header);
  if (lines.length) payload.push('', ...lines);
  const chunks = chunkMessages(payload.length ? payload : ['No data']);
  for (const chunk of chunks) {
    await t.sendMessage(ADMIN_CHAT_ID, `${RLE}${chunk}${PDF}`);
  }
  res.status(200).json({ ok: true, checked: updates.length, reported: lines.length });\<close>
  Any error that reaches the outer \<open>catch\<close> gives \<open>res.status(500).json({ error: String(err) })\<close>
  (the notification the handler tries to send first does not change the response).
\<close>

definition report_chunks :: "config \<Rightarrow> jsstring list \<Rightarrow> jsstring list" where
  "report_chunks cfg lines =
     (let header = report_header cfg (length lines);
          payload = (if header \<noteq> [] then [header] else []) @ (if lines \<noteq> [] then [] # lines else [])
      in chunkMessages (if payload \<noteq> [] then payload else [js ''No data'']) 3800)"

definition run :: "config \<Rightarrow> world \<Rightarrow> response option" where
  "run cfg w =
     (case fetchAllUpdates (getUpdates w) None of
        Inl e \<Rightarrow> Some \<lparr>status = 500, body = ErrorOf e\<rparr>
      | Inr out \<Rightarrow>
          (case report_lines cfg w (fst out) of
             None \<Rightarrow> None
           | Some lines \<Rightarrow>
               if list_ex (\<lambda>chunk. send_rejects w (RLE @ chunk @ PDF)) (report_chunks cfg lines)
               then Some \<lparr>status = 500, body = ErrorOf FetchRejected\<rparr>
               else Some \<lparr>status = 200, body = OkBody True (length (fst out)) (length lines)\<rparr>))"

text \<open>
  \<^verbatim>\<open>if (CRON_SECRET) {
    let provided = '';
    try {
      const u = new URL(req.url || '', 'http://localhost');
      provided = u.searchParams.get('key') || '';
    } catch {}
    if (provided !== CRON_SECRET) { res.status(401).json({ error: 'Unauthorized' }); return; }
  }
  if (!TG_TOKEN || !ADMIN_CHAT_ID) {
    res.status(500).json({ error: 'Missing env vars: TELEGRAM_BOT_TOKEN, ADMIN_CHAT_ID' });
    return;
  }\<close>
\<close>

definition handler :: "config \<Rightarrow> world \<Rightarrow> request \<Rightarrow> response option" where
  "handler cfg w req =
     (if truthy_str (CRON_SECRET cfg) \<and> str_or_empty (key_param req) \<noteq> str_or_empty (CRON_SECRET cfg)
      then Some \<lparr>status = 401, body = ErrorMsg (js ''Unauthorized'')\<rparr>
      else if \<not> truthy_str (TG_TOKEN cfg) \<or> \<not> truthy_str (ADMIN_CHAT_ID cfg)
      then Some \<lparr>status = 500, body = ErrorMsg (js ''Missing env vars: TELEGRAM_BOT_TOKEN, ADMIN_CHAT_ID'')\<rparr>
      else run cfg w)"



section \<open>Example inputs\<close>

text \<open>
  A private conversation of the owner (identity 7) with the bot: the message
  \<open>Buy milk\<close> with message id 1, a thumbs-up reply to it, and a thumbs-up reaction on it;
  a store without entries, and one that holds the task of message 1 already closed at
  time 1.
\<close>

definition example_admin :: jsstring where
  "example_admin = js ''7''"

definition example_chat :: chat where
  "example_chat = \<lparr>chat_id = 7, chat_type = js ''private'', chat_title = None, chat_username = None\<rparr>"

definition THUMBS_UP :: jsstring where
  "THUMBS_UP = [0xD83D, 0xDC4D]"

definition example_message :: message where
  "example_message =
     \<lparr>m_chat = Some example_chat, m_from_id = Some 7, m_message_id = 1, m_date = Some 100,
      m_text = Some (js ''Buy milk''), m_caption = None, m_reply_to_message = None\<rparr>"

definition example_create :: update where
  "example_create =
     \<lparr>update_id = 10, u_message_reaction = None, u_messageReaction = None,
      u_message = Some example_message, u_channel_post = None, u_user_id = None, u_from_id = None\<rparr>"

definition example_reply_close :: update where
  "example_reply_close =
     \<lparr>update_id = 11, u_message_reaction = None, u_messageReaction = None,
      u_message = Some \<lparr>m_chat = Some example_chat, m_from_id = Some 7, m_message_id = 2,
        m_date = Some 200, m_text = Some THUMBS_UP, m_caption = None, m_reply_to_message = Some 1\<rparr>,
      u_channel_post = None, u_user_id = None, u_from_id = None\<rparr>"

definition example_reaction_close :: update where
  "example_reaction_close =
     \<lparr>update_id = 12,
      u_message_reaction = Some \<lparr>mr_chat = Some example_chat, mr_user_id = Some 7, mr_from_id = None,
        mr_new_reaction = Some (RArr [RObj (Some THUMBS_UP) None]), mr_new_reactions = None,
        mr_reaction = None, mr_reactions = None, mr_message_id = Some 1,
        mr_message_message_id = None, mr_msg_id = None\<rparr>,
      u_messageReaction = None, u_message = None, u_channel_post = None,
      u_user_id = None, u_from_id = None\<rparr>"

definition example_done_task :: task where
  "example_done_task =
     \<lparr>t_id = js ''7:1'', t_chat_id = 7, t_message_id = 1, t_createdAt = 100000,
      t_text = js ''Buy milk'', t_done = True, t_doneAt = Some 1\<rparr>"

definition empty_store :: kvstore where
  "empty_store =
     \<lparr>contents = (\<lambda>k. None), get_fails = (\<lambda>k. False), set_fails = (\<lambda>k. False),
      scan_reply = (\<lambda>pat cursor. Inr (js ''0'', []))\<rparr>"

definition example_done_store :: kvstore where
  "example_done_store = empty_store\<lparr>contents := (contents empty_store)(js ''task:7:1'' \<mapsto> Json example_done_task)\<rparr>"





text \<open>
  A feed with two pending updates: it answers the first request with both and any later
  request with an empty batch.
\<close>

definition example_feed :: "int option \<Rightarrow> error + resp" where
  "example_feed off =
     (if off = None
      then Inr \<lparr>resp_ok = True, resp_result = Some [example_create, example_reaction_close]\<rparr>
      else Inr \<lparr>resp_ok = True, resp_result = Some []\<rparr>)"

text \<open>
  A run on that feed: a store that enumerates the key of message 1, a configuration with
  every variable set (secret \<open>s3\<close>), the same without the store variables, and a request
  carrying the right key.
\<close>

definition example_world :: world where
  "example_world =
     \<lparr>getUpdates = example_feed,
      store = empty_store\<lparr>scan_reply := (\<lambda>pat cursor. Inr (js ''0'', [js ''task:7:1'']))\<rparr>,
      clock = (\<lambda>i. 5),
      run_now = 100000,
      send_rejects = (\<lambda>text. False),
      formatDate = (\<lambda>ts. js ''1970-01-01'')\<rparr>"

definition example_config :: config where
  "example_config =
     \<lparr>TG_TOKEN = Some (js ''token''), ADMIN_CHAT_ID = Some (js ''7''), CRON_SECRET = Some (js ''s3''),
      UPSTASH_URL = Some (js ''https://kv''), UPSTASH_TOKEN = Some (js ''kvtoken'')\<rparr>"

definition example_fallback_config :: config where
  "example_fallback_config = example_config\<lparr>UPSTASH_URL := None, UPSTASH_TOKEN := None\<rparr>"

definition example_request :: request where
  "example_request = \<lparr>key_param = Some (js ''s3'')\<rparr>"

section \<open>Properties of chunkMessages\<close>

lemma add_nl_nonempty: "add_nl l \<noteq> []"
  by (simp add: add_nl_def NL_def)

lemma chunk_loop_concat:
  "concat (chunk_loop ls m chunks cur) = concat chunks @ cur @ concat (map add_nl ls)"
  by (induction ls arbitrary: chunks cur) (simp_all add: push_cur_def Let_def)

lemma chunk_loop_groups:
  "\<exists>gs. concat gs = g @ ls \<and> [] \<notin> set gs \<and>
        chunk_loop ls m chunks (concat (map add_nl g)) = chunks @ map (\<lambda>grp. concat (map add_nl grp)) gs"
proof (induction ls arbitrary: chunks g)
  case Nil
  show ?case
  proof (cases "g = []")
    case True
    have "concat [] = g @ [] \<and> [] \<notin> set ([]::jsstring list list) \<and>
        chunk_loop [] m chunks (concat (map add_nl g)) = chunks @ map (\<lambda>grp. concat (map add_nl grp)) []"
      using True by (simp add: push_cur_def)
    then show ?thesis by blast
  next
    case False
    then have "concat (map add_nl g) \<noteq> []"
      by (cases g) (simp_all add: add_nl_nonempty)
    then have "concat [g] = g @ [] \<and> [] \<notin> set [g] \<and>
        chunk_loop [] m chunks (concat (map add_nl g)) = chunks @ map (\<lambda>grp. concat (map add_nl grp)) [g]"
      using False by (simp add: push_cur_def)
    then show ?thesis by blast
  qed
next
  case (Cons l ls)
  define cur where "cur = concat (map add_nl g)"
  show ?case
  proof (cases "int (length (cur @ add_nl l)) > m")
    case over: True
    have step: "chunk_loop (l # ls) m chunks cur = chunk_loop ls m (push_cur chunks cur) (concat (map add_nl [l]))"
      using over by (simp add: Let_def)
    obtain gs where gs: "concat gs = [l] @ ls" "[] \<notin> set gs"
      "chunk_loop ls m (push_cur chunks cur) (concat (map add_nl [l]))
         = push_cur chunks cur @ map (\<lambda>grp. concat (map add_nl grp)) gs"
      using Cons.IH[of "[l]" "push_cur chunks cur"] by blast
    show ?thesis
    proof (cases "g = []")
      case True
      then have "push_cur chunks cur = chunks" by (simp add: push_cur_def cur_def)
      with gs step True have "concat gs = g @ l # ls \<and> [] \<notin> set gs \<and>
        chunk_loop (l # ls) m chunks cur = chunks @ map (\<lambda>grp. concat (map add_nl grp)) gs"
        by simp
      then show ?thesis unfolding cur_def by blast
    next
      case False
      then have "cur \<noteq> []" unfolding cur_def
        by (cases g) (simp_all add: add_nl_nonempty)
      then have "push_cur chunks cur = chunks @ [cur]" by (simp add: push_cur_def)
      with gs step False have "concat (g # gs) = g @ l # ls \<and> [] \<notin> set (g # gs) \<and>
        chunk_loop (l # ls) m chunks cur = chunks @ map (\<lambda>grp. concat (map add_nl grp)) (g # gs)"
        by (simp add: cur_def)
      then show ?thesis unfolding cur_def by blast
    qed
  next
    case under: False
    have step: "chunk_loop (l # ls) m chunks cur = chunk_loop ls m chunks (concat (map add_nl (g @ [l])))"
      using under by (simp add: Let_def cur_def)
    obtain gs where gs: "concat gs = (g @ [l]) @ ls" "[] \<notin> set gs"
      "chunk_loop ls m chunks (concat (map add_nl (g @ [l])))
         = chunks @ map (\<lambda>grp. concat (map add_nl grp)) gs"
      using Cons.IH[of "g @ [l]" chunks] by blast
    with step have "concat gs = g @ l # ls \<and> [] \<notin> set gs \<and>
        chunk_loop (l # ls) m chunks cur = chunks @ map (\<lambda>grp. concat (map add_nl grp)) gs"
      by simp
    then show ?thesis unfolding cur_def by blast
  qed
qed

lemma push_cur_ok:
  "\<forall>c\<in>set chunks. chunk_ok S m c \<Longrightarrow> cur = [] \<or> chunk_ok S m cur \<Longrightarrow>
   \<forall>c\<in>set (push_cur chunks cur). chunk_ok S m c"
  unfolding push_cur_def by (cases "cur = []") simp_all

lemma chunk_loop_bound:
  "add_nl ` set ls \<subseteq> S \<Longrightarrow> \<forall>c\<in>set chunks. chunk_ok S m c \<Longrightarrow> cur = [] \<or> chunk_ok S m cur \<Longrightarrow>
   \<forall>c\<in>set (chunk_loop ls m chunks cur). chunk_ok S m c"
proof (induction ls arbitrary: chunks cur)
  case Nil
  then show ?case using push_cur_ok[OF Nil.prems(2,3)] by simp
next
  case (Cons l ls)
  have sub: "add_nl ` set ls \<subseteq> S" and single: "chunk_ok S m (add_nl l)"
    using Cons.prems(1) by (simp_all add: chunk_ok_def)
  show ?case
  proof (cases "int (length (cur @ add_nl l)) > m")
    case True
    have pc: "\<forall>c\<in>set (push_cur chunks cur). chunk_ok S m c"
      using push_cur_ok[OF Cons.prems(2,3)] .
    have main: "\<forall>c\<in>set (chunk_loop ls m (push_cur chunks cur) (add_nl l)). chunk_ok S m c"
      by (rule Cons.IH[OF sub pc]) (rule disjI2, rule single)
    have eq: "chunk_loop (l # ls) m chunks cur = chunk_loop ls m (push_cur chunks cur) (add_nl l)"
      using True by (simp add: Let_def)
    show ?thesis unfolding eq by (rule main)
  next
    case False
    then have ok: "chunk_ok S m (cur @ add_nl l)"
      by (simp add: chunk_ok_def)
    have main: "\<forall>c\<in>set (chunk_loop ls m chunks (cur @ add_nl l)). chunk_ok S m c"
      by (rule Cons.IH[OF sub Cons.prems(2)]) (rule disjI2, rule ok)
    have eq: "chunk_loop (l # ls) m chunks cur = chunk_loop ls m chunks (cur @ add_nl l)"
      using False by (simp add: Let_def)
    show ?thesis unfolding eq by (rule main)
  qed
qed


text \<open>
  C3 (as stated, refuted): no chunk exceeds the bound. A single line that is longer than
  the bound is emitted whole: \<open>chunkMessages ["abc"] 2\<close> is the one chunk \<open>"abc\n"\<close> of
  length 4.
\<close>

theorem chunkMessages_bound_counterexample:
  "chunkMessages [js ''abc''] 2 = [js ''abc'' @ NL] \<and> int (length (js ''abc'' @ NL)) > 2"
  by (simp add: chunkMessages_def js_def NL_def add_nl_def push_cur_def)

text \<open>
  C3 (amended): for every list of lines and every bound, the chunks concatenated in order
  are exactly the lines, each followed by its newline; every chunk is the concatenation of
  a non-empty run of whole consecutive lines (no line is split); every chunk is within the
  bound or consists of one single line (with its newline) that alone exceeds the bound; and
  when every line with its newline fits the bound, no chunk exceeds the bound.
\<close>

theorem chunkMessages_reassemble:
  "concat (chunkMessages lines maxLen) = concat (map add_nl lines) \<and>
   (\<exists>groups. concat groups = lines \<and> [] \<notin> set groups \<and>
      chunkMessages lines maxLen = map (\<lambda>grp. concat (map add_nl grp)) groups) \<and>
   (\<forall>c\<in>set (chunkMessages lines maxLen). int (length c) \<le> maxLen \<or> c \<in> add_nl ` set lines) \<and>
   ((\<forall>l\<in>set lines. int (length (add_nl l)) \<le> maxLen) \<longrightarrow>
      (\<forall>c\<in>set (chunkMessages lines maxLen). int (length c) \<le> maxLen))"
proof -
  have a: "concat (chunkMessages lines maxLen) = concat (map add_nl lines)"
    by (simp add: chunkMessages_def chunk_loop_concat)
  have b: "\<exists>groups. concat groups = lines \<and> [] \<notin> set groups \<and>
      chunkMessages lines maxLen = map (\<lambda>grp. concat (map add_nl grp)) groups"
    using chunk_loop_groups[of "[]" lines maxLen "[]"] by (simp add: chunkMessages_def)
  have ok: "\<forall>c\<in>set (chunkMessages lines maxLen). chunk_ok (add_nl ` set lines) maxLen c"
    unfolding chunkMessages_def by (rule chunk_loop_bound) simp_all
  then have c: "\<forall>c\<in>set (chunkMessages lines maxLen). int (length c) \<le> maxLen \<or> c \<in> add_nl ` set lines"
    by (simp add: chunk_ok_def)
  have d: "(\<forall>l\<in>set lines. int (length (add_nl l)) \<le> maxLen) \<longrightarrow>
      (\<forall>c\<in>set (chunkMessages lines maxLen). int (length c) \<le> maxLen)"
    using c by blast
  from a b c d show ?thesis by blast
qed

theorem chunkMessages_reassemble_witness:
  "int (length (add_nl (js ''ab''))) \<le> 6 \<and> int (length (add_nl (js ''cd''))) \<le> 6 \<and>
   int (length (add_nl (js ''efgh''))) \<le> 6 \<and>
   chunkMessages [js ''ab'', js ''cd'', js ''efgh''] 6 = [js ''ab'' @ NL @ js ''cd'' @ NL, js ''efgh'' @ NL] \<and>
   concat (chunkMessages [js ''ab'', js ''cd'', js ''efgh''] 6)
     = concat (map add_nl [js ''ab'', js ''cd'', js ''efgh'']) \<and>
   int (length (js ''ab'' @ NL @ js ''cd'' @ NL)) \<le> 6 \<and> int (length (js ''efgh'' @ NL)) \<le> 6"
  using chunkMessages_reassemble [of "[js ''ab'', js ''cd'', js ''efgh'']" 6]
  by (simp add: chunkMessages_def js_def NL_def add_nl_def push_cur_def)

section \<open>Properties of ageDays\<close>

text \<open>
  C10: \<open>ageDays\<close> is never negative; it is 0 when the creation timestamp is missing, zero
  or later than \<open>nowTs\<close>; otherwise it is the whole number of days
  \<open>floor ((nowTs - fromTs) / 86400000)\<close>.
\<close>

theorem ageDays_spec:
  "0 \<le> ageDays fromTs nowTs \<and>
   ((fromTs = None \<or> fromTs = Some 0 \<or> (\<exists>f. fromTs = Some f \<and> f > nowTs)) \<longrightarrow>
      ageDays fromTs nowTs = 0) \<and>
   (\<forall>f. fromTs = Some f \<and> f \<noteq> 0 \<and> f \<le> nowTs \<longrightarrow>
      ageDays fromTs nowTs = (nowTs - f) div 86400000)"
  by (auto simp: ageDays_def pos_imp_zdiv_nonneg_iff split: option.splits)

theorem ageDays_spec_witness:
  "Some (1000::int) = Some 1000 \<and> (1000::int) \<noteq> 0 \<and> (1000::int) \<le> 259201005 \<and>
   ageDays (Some 1000) 259201005 = 3 \<and> ageDays (Some 2000) 1000 = 0 \<and> ageDays None 1000 = 0"
  using ageDays_spec [of "Some 1000" 259201005] ageDays_spec [of "Some 2000" 1000]
    ageDays_spec [of None 1000]
  by simp


section \<open>Properties of the thumbs-up detector\<close>

lemma regex_search_thumbs: "regex_search THUMBS_UP_RE cs \<longleftrightarrow> 0x1F44D \<in> set cs"
  by (induction cs) (auto split: list.splits)

lemma THUMBS_UP_RE_test_iff: "THUMBS_UP_RE_test s \<longleftrightarrow> 0x1F44D \<in> set (code_points s)"
  by (simp add: THUMBS_UP_RE_test_def regex_search_thumbs)

lemma code_points_fromCodePoint:
  assumes "c \<le> 0x10FFFF"
  shows "code_points (fromCodePoint c) = [c]"
proof (cases "c < 0x10000")
  case True
  then show ?thesis by (simp add: fromCodePoint_def)
next
  case False
  define d where "d = c - 0x10000"
  have d: "d < 0x100000" "c = 0x10000 + d"
    using assms False by (simp_all add: d_def)
  have hi: "d div 0x400 < 0x400"
    using d(1) by (simp add: less_mult_imp_div_less)
  have lo: "d mod 0x400 < 0x400"
    by simp
  have h: "is_high_surrogate (0xD800 + d div 0x400)"
    using hi by (simp add: is_high_surrogate_def)
  have l: "is_low_surrogate (0xDC00 + d mod 0x400)"
    using lo by (simp add: is_low_surrogate_def)
  have "fromCodePoint c = [0xD800 + d div 0x400, 0xDC00 + d mod 0x400]"
    using False by (simp add: fromCodePoint_def d_def)
  moreover have "0x10000 + (0xD800 + d div 0x400 - 0xD800) * 0x400 + (0xDC00 + d mod 0x400 - 0xDC00) = c"
    using d(2) by simp
  ultimately show ?thesis
    using h l by simp
qed

lemma code_points_thumb_tone:
  assumes "m \<in> set SKIN_TONES"
  shows "code_points (fromCodePoint 0x1F44D @ fromCodePoint m) = [0x1F44D, m]"
  using assms
  by (auto simp: SKIN_TONES_def fromCodePoint_def is_high_surrogate_def is_low_surrogate_def)

text \<open>
  C5: the detector accepts the base thumbs-up glyph U+1F44D (a match of one code point)
  and each of its five skin-tone forms, U+1F44D followed by one of U+1F3FB to U+1F3FF
  (a match of two code points, the modifier taken with the glyph as one unit); it rejects
  every other single code point, and more generally every string in which U+1F44D does not
  occur. The \<open>hasThumb\<close> check of the reaction branch holds exactly when some reaction
  string contains U+1F44D.
\<close>

theorem thumbs_up_variants:
  "THUMBS_UP_RE_test (fromCodePoint 0x1F44D) \<and>
   THUMBS_UP_RE (code_points (fromCodePoint 0x1F44D)) = Some 1 \<and>
   (\<forall>m\<in>set SKIN_TONES.
      THUMBS_UP_RE_test (fromCodePoint 0x1F44D @ fromCodePoint m) \<and>
      THUMBS_UP_RE (code_points (fromCodePoint 0x1F44D @ fromCodePoint m)) = Some 2) \<and>
   (\<forall>c. c \<le> 0x10FFFF \<and> c \<noteq> 0x1F44D \<longrightarrow> \<not> THUMBS_UP_RE_test (fromCodePoint c)) \<and>
   (\<forall>s. 0x1F44D \<notin> set (code_points s) \<longrightarrow> \<not> THUMBS_UP_RE_test s) \<and>
   (\<forall>emojis. list_ex THUMBS_UP_RE_test emojis \<longleftrightarrow> (\<exists>e\<in>set emojis. 0x1F44D \<in> set (code_points e)))"
proof -
  have base: "code_points (fromCodePoint 0x1F44D) = [0x1F44D]"
    by (rule code_points_fromCodePoint) simp
  have a: "THUMBS_UP_RE_test (fromCodePoint 0x1F44D)"
    by (simp add: THUMBS_UP_RE_test_iff base)
  have b: "THUMBS_UP_RE (code_points (fromCodePoint 0x1F44D)) = Some 1"
    by (simp add: base)
  have c: "\<forall>m\<in>set SKIN_TONES.
      THUMBS_UP_RE_test (fromCodePoint 0x1F44D @ fromCodePoint m) \<and>
      THUMBS_UP_RE (code_points (fromCodePoint 0x1F44D @ fromCodePoint m)) = Some 2"
    by (simp add: THUMBS_UP_RE_test_iff code_points_thumb_tone)
  have d: "\<forall>c. c \<le> 0x10FFFF \<and> c \<noteq> 0x1F44D \<longrightarrow> \<not> THUMBS_UP_RE_test (fromCodePoint c)"
    by (simp add: THUMBS_UP_RE_test_iff code_points_fromCodePoint)
  have e: "\<forall>s. 0x1F44D \<notin> set (code_points s) \<longrightarrow> \<not> THUMBS_UP_RE_test s"
    by (simp add: THUMBS_UP_RE_test_iff)
  have f: "\<forall>emojis. list_ex THUMBS_UP_RE_test emojis \<longleftrightarrow> (\<exists>e\<in>set emojis. 0x1F44D \<in> set (code_points e))"
    by (simp add: list_ex_iff THUMBS_UP_RE_test_iff)
  from a b c d e f show ?thesis by blast
qed

theorem thumbs_up_variants_witness:
  "0x1F3FD \<in> set SKIN_TONES \<and>
   fromCodePoint 0x1F44D @ fromCodePoint 0x1F3FD = [0xD83D, 0xDC4D, 0xD83C, 0xDFFD] \<and>
   THUMBS_UP_RE_test [0xD83D, 0xDC4D, 0xD83C, 0xDFFD] \<and>
   (0x1F44E::nat) \<le> 0x10FFFF \<and> (0x1F44E::nat) \<noteq> 0x1F44D \<and>
   fromCodePoint 0x1F44E = [0xD83D, 0xDC4E] \<and>
   \<not> THUMBS_UP_RE_test [0xD83D, 0xDC4E] \<and>
   \<not> THUMBS_UP_RE_test (js ''ok'')"
proof -
  have t: "0x1F3FD \<in> set SKIN_TONES"
    by (simp add: SKIN_TONES_def)
  have e1: "fromCodePoint 0x1F44D @ fromCodePoint 0x1F3FD = [0xD83D, 0xDC4D, 0xD83C, 0xDFFD]"
    by (simp add: fromCodePoint_def)
  have e2: "fromCodePoint 0x1F44E = [0xD83D, 0xDC4E]"
    by (simp add: fromCodePoint_def)
  have c1: "THUMBS_UP_RE_test [0xD83D, 0xDC4D, 0xD83C, 0xDFFD]"
    by (simp add: THUMBS_UP_RE_test_def is_high_surrogate_def is_low_surrogate_def SKIN_TONES_def)
  have c2: "\<not> THUMBS_UP_RE_test [0xD83D, 0xDC4E]"
    by (simp add: THUMBS_UP_RE_test_def is_high_surrogate_def is_low_surrogate_def)
  have c3: "\<not> THUMBS_UP_RE_test (js ''ok'')"
    by (simp add: THUMBS_UP_RE_test_def js_def is_high_surrogate_def)
  show ?thesis
    using thumbs_up_variants by (simp add: t e1 e2 c1 c2 c3)
qed

section \<open>Properties of the apply step\<close>

lemma show_int_7: "show_int 7 = js ''7''" "show_int 1 = js ''1''"
  by (simp_all add: show_int_def show_nat.simps js_def)

lemma task_key_7_1: "task_key 7 1 = js ''task:7:1''"
  by (simp add: task_key_def show_int_7) (simp add: js_def)

lemma thumbs_up_test: "THUMBS_UP_RE_test THUMBS_UP"
  by (simp add: THUMBS_UP_RE_test_def THUMBS_UP_def is_high_surrogate_def is_low_surrogate_def)

lemma buy_milk_no_thumb: "\<not> THUMBS_UP_RE_test (js ''Buy milk'')"
  by (simp add: THUMBS_UP_RE_test_def js_def is_high_surrogate_def is_low_surrogate_def)

lemma classify_example_reply_close:
  "classify example_admin example_reply_close = ReplyClose (js ''task:7:1'')"
  by (simp add: classify_def classify_message_def example_reply_close_def example_chat_def
      or_obj_def String_id_def show_int_7 example_admin_def message_text_def or_str_def
      str_or_empty_def thumbs_up_test task_key_7_1)
    (simp add: THUMBS_UP_def)

lemma classify_example_reaction_close:
  "classify example_admin example_reaction_close = ReactionClose (js ''task:7:1'')"
  by (simp add: classify_def classify_reaction_def example_reaction_close_def example_chat_def
      or_obj_def or_id_def String_id_def show_int_7 example_admin_def extractReactionEmojis_def
      or_field_def thumbs_up_test task_key_7_1)

lemma snippet_buy_milk: "snippet (js ''Buy milk'') 400 = js ''Buy milk''"
  by (simp add: snippet_def js_def trim_def is_space_def)

lemma classify_example_create:
  "classify example_admin example_create =
     CreateTask (js ''task:7:1'')
       \<lparr>t_id = js ''7:1'', t_chat_id = 7, t_message_id = 1, t_createdAt = 100000,
        t_text = js ''Buy milk'', t_done = False, t_doneAt = None\<rparr>"
  by (simp add: classify_def classify_message_def example_create_def example_message_def
      example_chat_def or_obj_def String_id_def show_int_7 example_admin_def message_text_def
      or_str_def str_or_empty_def buy_milk_no_thumb task_key_7_1 new_task_def snippet_buy_milk)
    (simp add: js_def)

lemma apply_reaction_classify:
  "try_catch kv (apply_reaction admin now kv u mr) = apply_action now kv (classify_reaction admin u mr)"
  by (simp add: apply_reaction_def classify_reaction_def apply_action_def try_catch_def Let_def
      split: option.splits)

lemma apply_message_classify:
  "apply_message admin now kv m = apply_action now kv (classify_message admin m)"
  by (simp add: apply_message_def classify_message_def apply_action_def Let_def
      split: option.splits)

lemma apply_update_classify:
  "apply_update admin now kv u = apply_action now kv (classify admin u)"
  by (simp add: apply_update_def classify_def apply_reaction_classify apply_message_classify
      apply_action_def split: option.splits)

lemma close_task_frame:
  "contents (try_catch kv (close_task now kv k)) k' =
     (if k' = k then
        (case contents kv k of
           Some (Json r) \<Rightarrow> if get_fails kv k \<or> set_fails kv k then Some (Json r)
                            else Some (Json (r\<lparr>t_done := True, t_doneAt := Some now\<rparr>))
         | other \<Rightarrow> other)
      else contents kv k')"
  by (simp add: close_task_def try_catch_def kv_get_def kv_set_def
      split: option.splits stored.splits)

lemma create_frame:
  "contents (try_catch kv (kv_set kv k v)) k' =
     (if k' = k \<and> \<not> set_fails kv k then Some v else contents kv k')"
  by (simp add: try_catch_def kv_set_def)

lemma apply_action_oracles:
  "get_fails (apply_action now kv a) = get_fails kv \<and>
   set_fails (apply_action now kv a) = set_fails kv \<and>
   scan_reply (apply_action now kv a) = scan_reply kv"
  by (simp add: apply_action_def try_catch_def close_task_def kv_get_def kv_set_def
      split: action.splits option.splits stored.splits sum.splits)

lemma apply_action_closes:
  "closes a k \<Longrightarrow> apply_action now kv a = try_catch kv (close_task now kv k)"
  by (auto simp: closes_def apply_action_def)

lemma classify_message_create:
  "classify_message admin m = CreateTask k t \<Longrightarrow>
     \<exists>c. m_chat m = Some c \<and> k = task_key (chat_id c) (m_message_id m) \<and> t = new_task c m"
  by (auto simp: classify_message_def split: option.splits if_splits)

lemma classify_reaction_no_create:
  "classify_reaction admin u mr \<noteq> CreateTask k t"
  by (simp add: classify_reaction_def split: option.splits)

lemma classify_create:
  "classify admin u = CreateTask k t \<Longrightarrow>
     \<exists>m c. u_message u = Some m \<and> m_chat m = Some c \<and>
           k = task_key (chat_id c) (m_message_id m) \<and> t = new_task c m"
  using classify_message_create[of admin _ k t] classify_reaction_no_create[of admin u _ k t]
  by (auto simp: classify_def split: option.splits)

text \<open>
  C1 (amended): when a close action (reaction-close or reply-close) is applied to an identity
  whose stored record already has \<open>done = true\<close>, the record keeps \<open>done = true\<close> and all its
  other fields, but its \<open>doneAt\<close> is overwritten with the time of this close (the close
  branches do not test \<open>done\<close>); the record is left as it was only when the store rejects
  the lookup or the write. No other key changes.
\<close>

theorem close_again_overwrites_doneAt:
  assumes "closes (classify admin u) k" and "contents kv k = Some (Json r)" and "t_done r"
  shows "contents (apply_update admin now kv u) k =
           Some (Json (if get_fails kv k \<or> set_fails kv k then r else r\<lparr>t_doneAt := Some now\<rparr>)) \<and>
         (\<forall>k'. k' \<noteq> k \<longrightarrow> contents (apply_update admin now kv u) k' = contents kv k')"
proof -
  have eq: "apply_update admin now kv u = try_catch kv (close_task now kv k)"
    using assms(1) by (simp add: apply_update_classify apply_action_closes)
  have "r\<lparr>t_done := True, t_doneAt := Some now\<rparr> = r\<lparr>t_doneAt := Some now\<rparr>"
    using assms(3) by simp
  then show ?thesis
    unfolding eq by (simp add: close_task_frame assms(2))
qed

text \<open>
  C1 (as stated, refuted): a second close is not a no-op. The task of message 1, closed
  at time 1, gets \<open>doneAt = 2\<close> when the thumbs-up reply, or the thumbs-up reaction, is
  applied at time 2.
\<close>

theorem close_again_counterexample:
  "closes (classify example_admin example_reply_close) (js ''task:7:1'') \<and>
   closes (classify example_admin example_reaction_close) (js ''task:7:1'') \<and>
   contents example_done_store (js ''task:7:1'') = Some (Json example_done_task) \<and>
   t_done example_done_task \<and> t_doneAt example_done_task = Some 1 \<and>
   contents (apply_update example_admin 2 example_done_store example_reply_close) (js ''task:7:1'')
     = Some (Json (example_done_task\<lparr>t_doneAt := Some 2\<rparr>)) \<and>
   contents (apply_update example_admin 2 example_done_store example_reaction_close) (js ''task:7:1'')
     = Some (Json (example_done_task\<lparr>t_doneAt := Some 2\<rparr>)) \<and>
   example_done_task\<lparr>t_doneAt := Some 2\<rparr> \<noteq> example_done_task"
  by (simp add: apply_update_classify classify_example_reply_close classify_example_reaction_close
      closes_def apply_action_def close_task_frame example_done_store_def empty_store_def
      example_done_task_def)

theorem close_again_overwrites_doneAt_witness:
  "closes (classify example_admin example_reply_close) (js ''task:7:1'') \<and>
   contents example_done_store (js ''task:7:1'') = Some (Json example_done_task) \<and>
   t_done example_done_task \<and>
   contents (apply_update example_admin 2 example_done_store example_reply_close) (js ''task:7:1'')
     = Some (Json (example_done_task\<lparr>t_doneAt := Some 2\<rparr>))"
proof -
  have a: "closes (classify example_admin example_reply_close) (js ''task:7:1'')"
    by (simp add: classify_example_reply_close closes_def)
  have b: "contents example_done_store (js ''task:7:1'') = Some (Json example_done_task)"
    by (simp add: example_done_store_def)
  have c: "t_done example_done_task"
    by (simp add: example_done_task_def)
  show ?thesis
    using a b c close_again_overwrites_doneAt [OF a b c, of 2]
    by (simp add: example_done_store_def empty_store_def)
qed

text \<open>
  C2 (amended): a create-task writes its new record, with \<open>done = false\<close> and no
  \<open>doneAt\<close>, at the identity's key whatever the ledger holds there: a record already
  present, with its \<open>done\<close> and \<open>doneAt\<close>, is overwritten (no lookup precedes the write)
  unless the store rejects the write. No other key changes.
\<close>

theorem create_overwrites:
  assumes "classify admin u = CreateTask k t"
  shows "contents (apply_update admin now kv u) k = (if set_fails kv k then contents kv k else Some (Json t)) \<and>
         \<not> t_done t \<and> t_doneAt t = None \<and>
         (\<forall>k'. k' \<noteq> k \<longrightarrow> contents (apply_update admin now kv u) k' = contents kv k')"
proof -
  have eq: "apply_update admin now kv u = try_catch kv (kv_set kv k (Json t))"
    using assms by (simp add: apply_update_classify apply_action_def)
  obtain m c where "t = new_task c m"
    using classify_create[OF assms] by blast
  then have "\<not> t_done t \<and> t_doneAt t = None"
    by (simp add: new_task_def)
  then show ?thesis
    unfolding eq by (simp add: create_frame)
qed

lemma apply_example_create:
  "contents (apply_update example_admin now example_done_store example_create) (js ''task:7:1'')
     = Some (Json (example_done_task\<lparr>t_done := False, t_doneAt := None\<rparr>))"
  by (simp add: apply_update_classify classify_example_create apply_action_def create_frame
      example_done_store_def empty_store_def example_done_task_def)

text \<open>
  C2 (as stated, refuted): a create on an identity that already has a record is not a
  no-op. Applied to the store that holds the closed task of message 1, the create for
  message 1 replaces it by an open task without \<open>doneAt\<close>.
\<close>

theorem create_again_counterexample:
  "classify example_admin example_create
     = CreateTask (js ''task:7:1'') (example_done_task\<lparr>t_done := False, t_doneAt := None\<rparr>) \<and>
   contents example_done_store (js ''task:7:1'') = Some (Json example_done_task) \<and>
   contents (apply_update example_admin 3 example_done_store example_create) (js ''task:7:1'')
     = Some (Json (example_done_task\<lparr>t_done := False, t_doneAt := None\<rparr>)) \<and>
   example_done_task\<lparr>t_done := False, t_doneAt := None\<rparr> \<noteq> example_done_task"
  by (simp add: apply_example_create classify_example_create)
    (simp add: example_done_store_def example_done_task_def)

theorem create_overwrites_witness:
  "classify example_admin example_create
     = CreateTask (js ''task:7:1'') (example_done_task\<lparr>t_done := False, t_doneAt := None\<rparr>) \<and>
   contents (apply_update example_admin 3 example_done_store example_create) (js ''task:7:1'')
     = Some (Json (example_done_task\<lparr>t_done := False, t_doneAt := None\<rparr>)) \<and>
   contents (apply_update example_admin 3 example_done_store example_create) (js ''task:9:9'')
     = None"
proof -
  have a: "classify example_admin example_create
     = CreateTask (js ''task:7:1'') (example_done_task\<lparr>t_done := False, t_doneAt := None\<rparr>)"
    by (simp add: classify_example_create example_done_task_def)
  have b: "js ''task:9:9'' \<noteq> js ''task:7:1''"
    by (simp add: js_def)
  show ?thesis
    using a b create_overwrites [OF a, of 3 example_done_store]
    by (simp add: example_done_store_def empty_store_def)
qed

























lemma spaced_snippet:
  "snippet ([0x20, 0x20] @ js ''Buy'' @ [0x09, 0x0A, 0xA0] @ js ''milk'' @ [0x20]) 400 = js ''Buy milk''"
  by (simp add: snippet_def js_def trim_def is_space_def)


text \<open>
  C6: a close action (reaction-close or reply-close) whose target key has no record (the
  lookup returns \<open>null\<close>) completes without an error (the guarded block returns normally,
  not through its \<open>catch\<close>) and leaves the store unchanged.
\<close>

theorem close_absent_noop:
  assumes "closes (classify admin u) k" and "kv_get kv k = Inr None"
  shows "close_task now kv k = Inr kv \<and> apply_update admin now kv u = kv"
proof -
  have c: "close_task now kv k = Inr kv"
    using assms(2) by (simp add: close_task_def)
  have "apply_update admin now kv u = try_catch kv (close_task now kv k)"
    using assms(1) by (simp add: apply_update_classify apply_action_closes)
  with c show ?thesis by (simp add: try_catch_def)
qed

theorem close_absent_noop_witness:
  "closes (classify example_admin example_reply_close) (js ''task:7:1'') \<and>
   closes (classify example_admin example_reaction_close) (js ''task:7:1'') \<and>
   kv_get empty_store (js ''task:7:1'') = Inr None \<and>
   close_task 5 empty_store (js ''task:7:1'') = Inr empty_store \<and>
   apply_update example_admin 5 empty_store example_reply_close = empty_store \<and>
   apply_update example_admin 5 empty_store example_reaction_close = empty_store"
proof -
  have a: "closes (classify example_admin example_reply_close) (js ''task:7:1'')"
    by (simp add: classify_example_reply_close closes_def)
  have a': "closes (classify example_admin example_reaction_close) (js ''task:7:1'')"
    by (simp add: classify_example_reaction_close closes_def)
  have b: "kv_get empty_store (js ''task:7:1'') = Inr None"
    by (simp add: kv_get_def empty_store_def)
  show ?thesis
    using a a' b close_absent_noop [OF a b, of 5] close_absent_noop [OF a' b, of 5]
    by simp
qed

section \<open>Properties of the report\<close>




lemma apply_action_contents:
  "contents (apply_action now kv a) k' =
     (case a of
        ReactionClose k \<Rightarrow> contents (try_catch kv (close_task now kv k)) k'
      | ReplyClose k \<Rightarrow> contents (try_catch kv (close_task now kv k)) k'
      | CreateTask k t \<Rightarrow> contents (try_catch kv (kv_set kv k (Json t))) k'
      | Ignore \<Rightarrow> contents kv k')"
  by (simp add: apply_action_def split: action.splits)











lemma apply_create_then_reaction:
  "contents (apply_updates example_admin (\<lambda>i. 5) 0 empty_store [example_create, example_reaction_close])
     (js ''task:7:1'')
   = Some (Json \<lparr>t_id = js ''7:1'', t_chat_id = 7, t_message_id = 1, t_createdAt = 100000,
        t_text = js ''Buy milk'', t_done = True, t_doneAt = Some 5\<rparr>)"
  by (simp add: apply_update_classify classify_example_create classify_example_reaction_close
      apply_action_contents close_task_frame create_frame apply_action_oracles)
    (simp add: empty_store_def)


section \<open>Properties of fetchAllUpdates\<close>

lemma fetch_loop_batches:
  "fetch_loop g off all = Inr (us, off') \<Longrightarrow>
   \<exists>bs. batches g off bs off' \<and> us = all @ concat bs \<and>
        (length us > 2000 \<or> batch_of g off' = Some []) \<and>
        (\<forall>n. 0 < n \<and> n < length bs \<longrightarrow> length (all @ concat (take n bs)) \<le> 2000)"
proof (induction g off all arbitrary: us off' rule: fetch_loop.induct)
  case (1 g off all)
  show ?case
  proof (cases "g off")
    case (Inl e)
    with "1.prems" show ?thesis by (simp add: fetch_loop.simps[of g off all] Let_def)
  next
    case (Inr r)
    define updates where "updates = (case resp_result r of None \<Rightarrow> [] | Some us \<Rightarrow> us)"
    show ?thesis
    proof (cases "resp_ok r")
      case False
      with Inr "1.prems" show ?thesis by (simp add: fetch_loop.simps[of g off all] Let_def)
    next
      case ok: True
      have bo: "batch_of g off = Some updates"
        using Inr ok by (simp add: batch_of_def updates_def)
      show ?thesis
      proof (cases "updates = []")
        case True
        with Inr ok "1.prems" have "us = all" "off' = off"
          by (simp_all add: fetch_loop.simps[of g off all] Let_def updates_def)
        with bo True have "batches g off [] off' \<and> us = all @ concat [] \<and>
          (length us > 2000 \<or> batch_of g off' = Some []) \<and>
          (\<forall>n. 0 < n \<and> n < length ([]::update list list) \<longrightarrow> length (all @ concat (take n [])) \<le> 2000)"
          by simp
        then show ?thesis by blast
      next
        case ne: False
        let ?off1 = "Some (update_id (last updates) + 1)"
        show ?thesis
        proof (cases "length (all @ updates) > 2000")
          case True
          with Inr ok ne "1.prems" have "us = all @ updates" "off' = ?off1"
            by (simp_all add: fetch_loop.simps[of g off all] Let_def updates_def)
          with bo ne True have "batches g off [updates] off' \<and> us = all @ concat [updates] \<and>
            (length us > 2000 \<or> batch_of g off' = Some []) \<and>
            (\<forall>n. 0 < n \<and> n < length [updates] \<longrightarrow> length (all @ concat (take n [updates])) \<le> 2000)"
            by simp
          then show ?thesis by blast
        next
          case small: False
          from Inr ok ne small "1.prems"
          have rec: "fetch_loop g ?off1 (all @ updates) = Inr (us, off')"
            by (simp add: fetch_loop.simps[of g off all] Let_def updates_def)
          have "\<exists>bs. batches g ?off1 bs off' \<and> us = (all @ updates) @ concat bs \<and>
              (length us > 2000 \<or> batch_of g off' = Some []) \<and>
              (\<forall>n. 0 < n \<and> n < length bs \<longrightarrow> length ((all @ updates) @ concat (take n bs)) \<le> 2000)"
            using Inr ok ne small rec
            by (intro "1.IH"[of r updates]) (simp_all add: updates_def)
          then obtain bs where bs: "batches g ?off1 bs off'" "us = (all @ updates) @ concat bs"
              "length us > 2000 \<or> batch_of g off' = Some []"
              "\<forall>n. 0 < n \<and> n < length bs \<longrightarrow> length ((all @ updates) @ concat (take n bs)) \<le> 2000"
            by blast
          have early: "length (all @ concat (take n (updates # bs))) \<le> 2000"
            if "0 < n" "n < length (updates # bs)" for n
          proof (cases n)
            case 0
            with that show ?thesis by simp
          next
            case (Suc m)
            show ?thesis
            proof (cases "m = 0")
              case True
              with Suc small show ?thesis by simp
            next
              case False
              with Suc that bs(4) have "length ((all @ updates) @ concat (take m bs)) \<le> 2000"
                by simp
              with Suc show ?thesis by simp
            qed
          qed
          have "batches g off (updates # bs) off' \<and> us = all @ concat (updates # bs) \<and>
            (length us > 2000 \<or> batch_of g off' = Some []) \<and>
            (\<forall>n. 0 < n \<and> n < length (updates # bs) \<longrightarrow> length (all @ concat (take n (updates # bs))) \<le> 2000)"
            using bo ne bs(1,2,3) early by simp
          then show ?thesis by blast
        qed
      qed
    qed
  qed
qed

lemma fetch_loop_error:
  "fetch_loop g off all = Inl e \<Longrightarrow> \<exists>c. batch_of g c = None"
proof (induction g off all rule: fetch_loop.induct)
  case (1 g off all)
  show ?case
  proof (cases "batch_of g off")
    case None
    then show ?thesis by blast
  next
    case (Some b)
    then obtain r where r: "g off = Inr r" "resp_ok r" "b = (case resp_result r of None \<Rightarrow> [] | Some us \<Rightarrow> us)"
      by (auto simp: batch_of_def split: sum.splits if_splits)
    from "1.prems" r have cont: "b \<noteq> [] \<and> \<not> length (all @ b) > 2000 \<and>
        fetch_loop g (Some (update_id (last b) + 1)) (all @ b) = Inl e"
      by (simp add: fetch_loop.simps[of g off all] Let_def split: if_splits)
    show ?thesis
      using r cont by (intro "1.IH"[of r b]) simp_all
  qed
qed

lemma batches_nonempty: "batches g off bs off' \<Longrightarrow> [] \<notin> set bs"
proof (induction bs arbitrary: off)
  case Nil
  show ?case by simp
next
  case (Cons b bs)
  from Cons.prems have "b \<noteq> []" and "batches g (Some (update_id (last b) + 1)) bs off'"
    by simp_all
  with Cons.IH[of "Some (update_id (last b) + 1)"] show ?case by simp
qed

lemma batches_cursor:
  "batches g off bs off' \<Longrightarrow> bs \<noteq> [] \<Longrightarrow> off' = Some (update_id (last (concat bs)) + 1)"
proof (induction bs arbitrary: off)
  case Nil
  then show ?case by simp
next
  case (Cons b bs)
  show ?case
  proof (cases "bs = []")
    case True
    with Cons.prems show ?thesis by simp
  next
    case False
    from Cons.prems(1) have "batches g (Some (update_id (last b) + 1)) bs off'"
      by simp
    then have "[] \<notin> set bs"
      by (rule batches_nonempty)
    with False have "concat bs \<noteq> []"
      by (cases bs) auto
    moreover have "off' = Some (update_id (last (concat bs)) + 1)"
      using Cons.IH[of "Some (update_id (last b) + 1)"] Cons.prems(1) False by simp
    ultimately show ?thesis by simp
  qed
qed

lemma batches_empty: "batches g off bs off' \<Longrightarrow> concat bs = [] \<Longrightarrow> bs = [] \<and> off' = off"
  by (cases bs) auto

lemma sorted_le_last:
  "sorted_wrt (<) (xs::int list) \<Longrightarrow> x \<in> set xs \<Longrightarrow> x \<le> last xs"
  by (induction xs) (auto simp: less_imp_le)

lemma Max_sorted:
  assumes "sorted_wrt (<) (map update_id us)" and "us \<noteq> []"
  shows "Max (update_id ` set us) = update_id (last us)"
proof (rule Max_eqI)
  show "finite (update_id ` set us)" by simp
  show "update_id (last us) \<in> update_id ` set us" using assms(2) by simp
  fix y assume "y \<in> update_id ` set us"
  then have "y \<in> set (map update_id us)" by simp
  then have "y \<le> last (map update_id us)"
    using assms(1) by (rule sorted_le_last[rotated])
  then show "y \<le> update_id (last us)"
    using assms(2) by (simp add: last_map)
qed

text \<open>
  C8: the drainer fails only when a fetch fails. When it returns, the updates are the
  concatenation, in order, of the non-empty batches fetched one after the other, each at
  the cursor its predecessor left; it has stopped because the batch at the final cursor is
  empty or because more than 2000 updates were drained, and not earlier (after every
  proper prefix of the batches at most 2000 updates had been drained). The final cursor is
  the last sequence number plus one, which is the maximum sequence number plus one when
  the sequence numbers are strictly increasing; with nothing drained it is the starting
  cursor.
\<close>

theorem fetchAllUpdates_drains:
  "(\<forall>e. fetchAllUpdates g start = Inl e \<longrightarrow> (\<exists>c. batch_of g c = None)) \<and>
   (\<forall>us off. fetchAllUpdates g start = Inr (us, off) \<longrightarrow>
      (\<exists>bs. batches g start bs off \<and> us = concat bs \<and>
            (length us > 2000 \<or> batch_of g off = Some []) \<and>
            (\<forall>n<length bs. length (concat (take n bs)) \<le> 2000)) \<and>
      (us = [] \<longrightarrow> off = start) \<and>
      (us \<noteq> [] \<longrightarrow> off = Some (update_id (last us) + 1)) \<and>
      (us \<noteq> [] \<and> sorted_wrt (<) (map update_id us) \<longrightarrow>
         off = Some (Max (update_id ` set us) + 1)))"
proof -
  have err: "\<exists>c. batch_of g c = None" if "fetchAllUpdates g start = Inl e" for e
    using that unfolding fetchAllUpdates_def by (rule fetch_loop_error)
  have res: "(\<exists>bs. batches g start bs off \<and> us = concat bs \<and>
            (length us > 2000 \<or> batch_of g off = Some []) \<and>
            (\<forall>n<length bs. length (concat (take n bs)) \<le> 2000)) \<and>
      (us = [] \<longrightarrow> off = start) \<and>
      (us \<noteq> [] \<longrightarrow> off = Some (update_id (last us) + 1)) \<and>
      (us \<noteq> [] \<and> sorted_wrt (<) (map update_id us) \<longrightarrow>
         off = Some (Max (update_id ` set us) + 1))"
    if h: "fetchAllUpdates g start = Inr (us, off)" for us off
  proof -
    from h obtain bs where bs: "batches g start bs off" "us = concat bs"
        "length us > 2000 \<or> batch_of g off = Some []"
        "\<forall>n. 0 < n \<and> n < length bs \<longrightarrow> length ([] @ concat (take n bs)) \<le> 2000"
      unfolding fetchAllUpdates_def using fetch_loop_batches[of g start "[]" us off] by auto
    have early: "\<forall>n<length bs. length (concat (take n bs)) \<le> 2000"
    proof (intro allI impI)
      fix n assume "n < length bs"
      then show "length (concat (take n bs)) \<le> 2000"
        using bs(4) by (cases "n = 0") simp_all
    qed
    have empty: "off = start" if "us = []"
      using batches_empty[OF bs(1)] that bs(2) by simp
    have cursor: "off = Some (update_id (last us) + 1)" if "us \<noteq> []"
    proof -
      from that bs(2) have "bs \<noteq> []" by auto
      from batches_cursor[OF bs(1) this] bs(2) show ?thesis by simp
    qed
    have mx: "off = Some (Max (update_id ` set us) + 1)"
      if "us \<noteq> []" "sorted_wrt (<) (map update_id us)"
      using cursor[OF that(1)] Max_sorted[OF that(2,1)] by simp
    from bs(1,2,3) early empty cursor mx show ?thesis by blast
  qed
  from err res show ?thesis by blast
qed

lemma fetch_example_feed:
  "fetchAllUpdates example_feed None = Inr ([example_create, example_reaction_close], Some 13)"
  by (simp add: fetchAllUpdates_def fetch_loop.simps[of example_feed] example_feed_def Let_def
      example_reaction_close_def)

theorem fetchAllUpdates_drains_witness:
  "fetchAllUpdates example_feed None = Inr ([example_create, example_reaction_close], Some 13) \<and>
   sorted_wrt (<) (map update_id [example_create, example_reaction_close]) \<and>
   Max (update_id ` set [example_create, example_reaction_close]) + 1 = 13 \<and>
   batch_of example_feed (Some 13) = Some []"
proof -
  have a: "fetchAllUpdates example_feed None = Inr ([example_create, example_reaction_close], Some 13)"
    by (rule fetch_example_feed)
  have b: "sorted_wrt (<) (map update_id [example_create, example_reaction_close])"
    by (simp add: example_create_def example_reaction_close_def)
  have ne: "[example_create, example_reaction_close] \<noteq> []"
    by simp
  have "Some (13::int) = Some (Max (update_id ` set [example_create, example_reaction_close]) + 1)"
    using fetchAllUpdates_drains [of example_feed None, THEN conjunct2, rule_format, OF a,
        THEN conjunct2, THEN conjunct2, THEN conjunct2, rule_format, OF conjI [OF ne b]] .
  then have c: "Max (update_id ` set [example_create, example_reaction_close]) + 1 = 13"
    by simp
  have d: "batch_of example_feed (Some 13) = Some []"
    by (simp add: batch_of_def example_feed_def)
  from a b c d show ?thesis by blast
qed

section \<open>Properties of the HTTP entry point\<close>

lemma regex_search_emoji: "regex_search EMOJI_REGEX cs \<longleftrightarrow> (\<exists>c\<in>set cs. emoji_class c)"
  by (induction cs) auto

lemma is_candidate_iff:
  "is_candidate since u \<longleftrightarrow>
     (\<exists>m d. or_obj (u_message u) (u_channel_post u) = Some m \<and> m_date m = Some d \<and> d \<noteq> 0 \<and>
            since \<le> d * 1000 \<and> message_text m \<noteq> [] \<and>
            (\<forall>c\<in>set (code_points (message_text m)). \<not> emoji_class c))"
  by (auto simp: is_candidate_def message_ts_def hasEmoji_def regex_search_emoji
      split: option.splits)

lemma report_lines_cases:
  "(haveKV cfg \<longrightarrow>
      report_lines cfg w us =
        map_option (\<lambda>keys. map (\<lambda>t. formatTaskLine t (run_now w))
            (report_tasks (apply_updates (str_or_empty (ADMIN_CHAT_ID cfg)) (clock w) 0 (store w) us) keys))
          (scan_keys (apply_updates (str_or_empty (ADMIN_CHAT_ID cfg)) (clock w) 0 (store w) us)
            (str_or_empty (ADMIN_CHAT_ID cfg)))) \<and>
   (\<not> haveKV cfg \<longrightarrow>
      report_lines cfg w us =
        Some (map (fallback_line w) (filter (is_candidate (run_now w - 24 * 60 * 60 * 1000)) us)))"
  by (simp add: report_lines_def Let_def split: option.splits)

lemma handler_run:
  assumes "\<not> (truthy_str (CRON_SECRET cfg) \<and> str_or_empty (key_param req) \<noteq> str_or_empty (CRON_SECRET cfg))"
    and "truthy_str (TG_TOKEN cfg)" and "truthy_str (ADMIN_CHAT_ID cfg)"
  shows "handler cfg w req = run cfg w"
  using assms by (auto simp: handler_def)

text \<open>
  C9 (amended): the entry point responds 401 when a secret is configured and the \<open>key\<close>
  parameter differs from it; otherwise 500 with a structured error when the bot token or
  the admin chat identity is missing; otherwise, when the drain succeeds, the report lines
  are built (the key enumeration ends) and no send is rejected, it responds 200 with
  \<open>ok = true\<close>, \<open>checked\<close> the number of updates drained and \<open>reported\<close> the number of
  report lines. The report lines are the open tasks listed when the key-value store is
  configured, and the messages of the last 24 hours without emoji when it is not (those
  with a send time not earlier than 24 hours before the run, a non-empty text or caption,
  and no code point of the emoji class). A failed drain gives 500 with the error; and every
  200 response arises in the way described.
\<close>

theorem handler_responses:
  "(truthy_str (CRON_SECRET cfg) \<and> str_or_empty (key_param req) \<noteq> str_or_empty (CRON_SECRET cfg) \<longrightarrow>
      handler cfg w req = Some \<lparr>status = 401, body = ErrorMsg (js ''Unauthorized'')\<rparr>) \<and>
   (\<not> (truthy_str (CRON_SECRET cfg) \<and> str_or_empty (key_param req) \<noteq> str_or_empty (CRON_SECRET cfg)) \<and>
    (\<not> truthy_str (TG_TOKEN cfg) \<or> \<not> truthy_str (ADMIN_CHAT_ID cfg)) \<longrightarrow>
      handler cfg w req =
        Some \<lparr>status = 500, body = ErrorMsg (js ''Missing env vars: TELEGRAM_BOT_TOKEN, ADMIN_CHAT_ID'')\<rparr>) \<and>
   (\<forall>us off lines.
      \<not> (truthy_str (CRON_SECRET cfg) \<and> str_or_empty (key_param req) \<noteq> str_or_empty (CRON_SECRET cfg)) \<and>
      truthy_str (TG_TOKEN cfg) \<and> truthy_str (ADMIN_CHAT_ID cfg) \<and>
      fetchAllUpdates (getUpdates w) None = Inr (us, off) \<and>
      report_lines cfg w us = Some lines \<and>
      \<not> list_ex (\<lambda>chunk. send_rejects w (RLE @ chunk @ PDF)) (report_chunks cfg lines) \<longrightarrow>
      handler cfg w req = Some \<lparr>status = 200, body = OkBody True (length us) (length lines)\<rparr>) \<and>
   (\<forall>us.
      (haveKV cfg \<longrightarrow>
         report_lines cfg w us =
           map_option (\<lambda>keys. map (\<lambda>t. formatTaskLine t (run_now w))
               (report_tasks (apply_updates (str_or_empty (ADMIN_CHAT_ID cfg)) (clock w) 0 (store w) us) keys))
             (scan_keys (apply_updates (str_or_empty (ADMIN_CHAT_ID cfg)) (clock w) 0 (store w) us)
               (str_or_empty (ADMIN_CHAT_ID cfg)))) \<and>
      (\<not> haveKV cfg \<longrightarrow>
         report_lines cfg w us =
           Some (map (fallback_line w) (filter (is_candidate (run_now w - 24 * 60 * 60 * 1000)) us)))) \<and>
   (\<forall>e.
      \<not> (truthy_str (CRON_SECRET cfg) \<and> str_or_empty (key_param req) \<noteq> str_or_empty (CRON_SECRET cfg)) \<and>
      truthy_str (TG_TOKEN cfg) \<and> truthy_str (ADMIN_CHAT_ID cfg) \<and>
      fetchAllUpdates (getUpdates w) None = Inl e \<longrightarrow>
      handler cfg w req = Some \<lparr>status = 500, body = ErrorOf e\<rparr>) \<and>
   (\<forall>r. handler cfg w req = Some r \<and> status r = 200 \<longrightarrow>
      (\<exists>us off lines.
         fetchAllUpdates (getUpdates w) None = Inr (us, off) \<and>
         report_lines cfg w us = Some lines \<and>
         \<not> list_ex (\<lambda>chunk. send_rejects w (RLE @ chunk @ PDF)) (report_chunks cfg lines) \<and>
         body r = OkBody True (length us) (length lines) \<and>
         (haveKV cfg \<longrightarrow>
            (\<exists>keys. scan_keys (apply_updates (str_or_empty (ADMIN_CHAT_ID cfg)) (clock w) 0 (store w) us)
                       (str_or_empty (ADMIN_CHAT_ID cfg)) = Some keys \<and>
                    length lines =
                      length (report_tasks
                        (apply_updates (str_or_empty (ADMIN_CHAT_ID cfg)) (clock w) 0 (store w) us) keys))) \<and>
         (\<not> haveKV cfg \<longrightarrow>
            length lines = length (filter (is_candidate (run_now w - 24 * 60 * 60 * 1000)) us)))) \<and>
   (\<forall>since u.
      is_candidate since u \<longleftrightarrow>
        (\<exists>m d. or_obj (u_message u) (u_channel_post u) = Some m \<and> m_date m = Some d \<and> d \<noteq> 0 \<and>
               since \<le> d * 1000 \<and> message_text m \<noteq> [] \<and>
               (\<forall>c\<in>set (code_points (message_text m)). \<not> emoji_class c)))"
proof -
  let ?deny = "truthy_str (CRON_SECRET cfg) \<and> str_or_empty (key_param req) \<noteq> str_or_empty (CRON_SECRET cfg)"
  have a: "?deny \<longrightarrow>
      handler cfg w req = Some \<lparr>status = 401, body = ErrorMsg (js ''Unauthorized'')\<rparr>"
    by (simp add: handler_def)
  have b: "\<not> ?deny \<and> (\<not> truthy_str (TG_TOKEN cfg) \<or> \<not> truthy_str (ADMIN_CHAT_ID cfg)) \<longrightarrow>
      handler cfg w req =
        Some \<lparr>status = 500, body = ErrorMsg (js ''Missing env vars: TELEGRAM_BOT_TOKEN, ADMIN_CHAT_ID'')\<rparr>"
    by (simp add: handler_def)
  have ok: "handler cfg w req = Some \<lparr>status = 200, body = OkBody True (length us) (length lines)\<rparr>"
    if h: "\<not> ?deny" "truthy_str (TG_TOKEN cfg)" "truthy_str (ADMIN_CHAT_ID cfg)"
      "fetchAllUpdates (getUpdates w) None = Inr (us, off)"
      "report_lines cfg w us = Some lines"
      "\<not> list_ex (\<lambda>chunk. send_rejects w (RLE @ chunk @ PDF)) (report_chunks cfg lines)"
    for us off lines
    unfolding handler_run [OF h(1,2,3)] using h(4,5,6) by (simp add: run_def)
  have err: "handler cfg w req = Some \<lparr>status = 500, body = ErrorOf e\<rparr>"
    if h: "\<not> ?deny" "truthy_str (TG_TOKEN cfg)" "truthy_str (ADMIN_CHAT_ID cfg)"
      "fetchAllUpdates (getUpdates w) None = Inl e"
    for e
    unfolding handler_run [OF h(1,2,3)] using h(4) by (simp add: run_def)
  have c: "\<exists>us off lines.
         fetchAllUpdates (getUpdates w) None = Inr (us, off) \<and>
         report_lines cfg w us = Some lines \<and>
         \<not> list_ex (\<lambda>chunk. send_rejects w (RLE @ chunk @ PDF)) (report_chunks cfg lines) \<and>
         body r = OkBody True (length us) (length lines) \<and>
         (haveKV cfg \<longrightarrow>
            (\<exists>keys. scan_keys (apply_updates (str_or_empty (ADMIN_CHAT_ID cfg)) (clock w) 0 (store w) us)
                       (str_or_empty (ADMIN_CHAT_ID cfg)) = Some keys \<and>
                    length lines =
                      length (report_tasks
                        (apply_updates (str_or_empty (ADMIN_CHAT_ID cfg)) (clock w) 0 (store w) us) keys))) \<and>
         (\<not> haveKV cfg \<longrightarrow>
            length lines = length (filter (is_candidate (run_now w - 24 * 60 * 60 * 1000)) us))"
    if h: "handler cfg w req = Some r" "status r = 200" for r
  proof -
    from h have run: "run cfg w = Some r"
      by (auto simp: handler_def split: if_splits)
    from run h(2) obtain us off where f: "fetchAllUpdates (getUpdates w) None = Inr (us, off)"
      by (cases "fetchAllUpdates (getUpdates w) None") (auto simp: run_def)
    from run h(2) f obtain lines where l: "report_lines cfg w us = Some lines"
      by (cases "report_lines cfg w us") (auto simp: run_def)
    from run h(2) f l have bd: "body r = OkBody True (length us) (length lines)"
      and nr: "\<not> list_ex (\<lambda>chunk. send_rejects w (RLE @ chunk @ PDF)) (report_chunks cfg lines)"
      by (auto simp: run_def split: if_splits)
    have kvc: "\<exists>keys. scan_keys (apply_updates (str_or_empty (ADMIN_CHAT_ID cfg)) (clock w) 0 (store w) us)
                       (str_or_empty (ADMIN_CHAT_ID cfg)) = Some keys \<and>
                    length lines =
                      length (report_tasks
                        (apply_updates (str_or_empty (ADMIN_CHAT_ID cfg)) (clock w) 0 (store w) us) keys)"
      if "haveKV cfg"
      using l that by (auto simp: report_lines_def Let_def split: option.splits)
    have fb: "length lines = length (filter (is_candidate (run_now w - 24 * 60 * 60 * 1000)) us)"
      if "\<not> haveKV cfg"
      using l that by (auto simp: report_lines_def Let_def)
    from f l nr bd kvc fb show ?thesis by blast
  qed
  note d = report_lines_cases [of cfg w]
  show ?thesis
    apply (intro conjI allI impI)
    subgoal using a by blast
    subgoal using b by blast
    subgoal for us off lines using ok [of us off lines] by blast
    subgoal for us using d [of us] by blast
    subgoal for us using d [of us] by blast
    subgoal for e using err [of e] by blast
    subgoal for r using c [of r] by blast
    subgoal for since u by (rule is_candidate_iff)
    done
qed

lemma apply_updates_scan_reply:
  "scan_reply (apply_updates admin clk i kv us) = scan_reply kv"
  by (induction us arbitrary: i kv) (simp_all add: apply_update_classify apply_action_oracles)

lemma report_single_done:
  "contents kv k = Some (Json r) \<Longrightarrow> t_done r \<Longrightarrow> report_tasks kv [k] = []"
  by (simp add: report_tasks_def kv_get_def)

lemma list_ex_False: "list_ex (\<lambda>x. False) xs = False"
  by (induction xs) simp_all

lemma example_candidates:
  "filter (is_candidate (100000 - 24 * 60 * 60 * 1000)) [example_create, example_reaction_close]
     = [example_create]"
proof -
  have t: "message_text example_message = js ''Buy milk''"
    by (simp add: example_message_def message_text_def or_str_def str_or_empty_def js_def)
  have e: "\<not> hasEmoji (js ''Buy milk'')"
    by (simp add: hasEmoji_def js_def is_high_surrogate_def emoji_class_def)
  have ne: "js ''Buy milk'' \<noteq> []"
    by (simp add: js_def)
  have a: "is_candidate (100000 - 24 * 60 * 60 * 1000) example_create"
    by (simp add: is_candidate_def example_create_def or_obj_def t e ne)
      (simp add: message_ts_def example_message_def)
  have b: "\<not> is_candidate (100000 - 24 * 60 * 60 * 1000) example_reaction_close"
    by (simp add: is_candidate_def example_reaction_close_def or_obj_def)
  from a b show ?thesis by simp
qed

lemma example_fallback_run:
  "handler example_fallback_config example_world example_request
     = Some \<lparr>status = 200, body = OkBody True 2 1\<rparr>"
proof -
  have kv: "\<not> haveKV example_fallback_config"
    by (simp add: haveKV_def example_fallback_config_def truthy_str_def)
  have lines: "\<exists>lines. report_lines example_fallback_config example_world
                  [example_create, example_reaction_close] = Some lines \<and> length lines = 1"
    using example_candidates by (simp add: report_lines_def kv example_world_def)
  then obtain lines where l: "report_lines example_fallback_config example_world
                  [example_create, example_reaction_close] = Some lines" "length lines = 1"
    by blast
  have r: "run example_fallback_config example_world = Some \<lparr>status = 200, body = OkBody True 2 1\<rparr>"
    using l by (simp add: run_def) (simp add: example_world_def fetch_example_feed list_ex_False)
  show ?thesis
    by (simp add: handler_def r)
      (simp add: example_fallback_config_def example_config_def example_request_def
        truthy_str_def str_or_empty_def js_def)
qed

lemma example_store_after:
  "contents (apply_updates (js ''7'') (\<lambda>i. 5) 0
       (empty_store\<lparr>scan_reply := (\<lambda>pat cursor. Inr (js ''0'', [js ''task:7:1'']))\<rparr>)
       [example_create, example_reaction_close]) (js ''task:7:1'')
   = Some (Json \<lparr>t_id = js ''7:1'', t_chat_id = 7, t_message_id = 1, t_createdAt = 100000,
        t_text = js ''Buy milk'', t_done = True, t_doneAt = Some 5\<rparr>)"
  using classify_example_create classify_example_reaction_close
  by (simp add: apply_update_classify example_admin_def
      apply_action_contents close_task_frame create_frame apply_action_oracles)
    (simp add: empty_store_def)

text \<open>
  C9 (as stated, refuted): \<open>reported\<close> need not be the number of open tasks listed. Without
  the store variables the run on the example feed answers \<open>reported = 1\<close> (the message
  \<open>Buy milk\<close>, listed as a recent message without emoji), while no open task is listed: the
  store has none, and the one task of the feed is closed by the reaction that follows it.
\<close>

theorem handler_reported_counterexample:
  "\<not> haveKV example_fallback_config \<and>
   handler example_fallback_config example_world example_request
     = Some \<lparr>status = 200, body = OkBody True 2 1\<rparr> \<and>
   report_tasks (store example_world) [js ''task:7:1''] = [] \<and>
   report_tasks (apply_updates (js ''7'') (clock example_world) 0 (store example_world)
       [example_create, example_reaction_close]) [js ''task:7:1''] = []"
proof -
  have a: "\<not> haveKV example_fallback_config"
    by (simp add: haveKV_def example_fallback_config_def truthy_str_def)
  have c: "report_tasks (store example_world) [js ''task:7:1''] = []"
    by (simp add: report_tasks_def kv_get_def example_world_def empty_store_def)
  have d: "report_tasks (apply_updates (js ''7'') (clock example_world) 0 (store example_world)
       [example_create, example_reaction_close]) [js ''task:7:1''] = []"
    by (simp add: example_world_def del: apply_updates.simps)
      (rule report_single_done [OF example_store_after], simp)
  from a example_fallback_run c d show ?thesis by blast
qed

lemma example_kv_lines:
  "report_lines example_config example_world [example_create, example_reaction_close] = Some []"
proof -
  let ?kv = "apply_updates (js ''7'') (\<lambda>i. 5) 0
       (empty_store\<lparr>scan_reply := (\<lambda>pat cursor. Inr (js ''0'', [js ''task:7:1'']))\<rparr>)
       [example_create, example_reaction_close]"
  have kv: "haveKV example_config"
    by (simp add: haveKV_def example_config_def truthy_str_def js_def)
  have adm: "str_or_empty (ADMIN_CHAT_ID example_config) = js ''7''"
    by (simp add: example_config_def str_or_empty_def)
  have sc: "scan_keys ?kv (js ''7'') = Some [js ''task:7:1'']"
    by (simp add: scan_keys_def apply_updates_scan_reply scan_loop.simps [of _ "js ''0''" "[]"]
        Let_def del: apply_updates.simps)
  have rt: "report_tasks ?kv [js ''task:7:1''] = []"
    by (rule report_single_done [OF example_store_after]) simp
  show ?thesis
    by (simp add: report_lines_def kv adm del: apply_updates.simps)
      (simp add: example_world_def sc rt del: apply_updates.simps)
qed

lemma example_fallback_lines:
  "report_lines example_fallback_config example_world [example_create, example_reaction_close]
     = Some [fallback_line example_world example_create]"
proof -
  have kv: "\<not> haveKV example_fallback_config"
    by (simp add: haveKV_def example_fallback_config_def truthy_str_def)
  show ?thesis
    using example_candidates by (simp add: report_lines_def kv example_world_def)
qed

lemma example_no_reject:
  "\<not> list_ex (\<lambda>chunk. send_rejects example_world (RLE @ chunk @ PDF)) chunks"
  by (simp add: example_world_def list_ex_False)

theorem handler_responses_witness:
  "handler example_config example_world example_request
     = Some \<lparr>status = 200, body = OkBody True 2 0\<rparr> \<and>
   handler example_fallback_config example_world example_request
     = Some \<lparr>status = 200, body = OkBody True 2 1\<rparr> \<and>
   fetchAllUpdates (getUpdates example_world) None
     = Inr ([example_create, example_reaction_close], Some 13) \<and>
   report_lines example_config example_world [example_create, example_reaction_close] = Some [] \<and>
   report_lines example_fallback_config example_world [example_create, example_reaction_close]
     = Some [fallback_line example_world example_create] \<and>
   handler example_config example_world \<lparr>key_param = None\<rparr>
     = Some \<lparr>status = 401, body = ErrorMsg (js ''Unauthorized'')\<rparr> \<and>
   handler (example_config\<lparr>TG_TOKEN := None\<rparr>) example_world example_request
     = Some \<lparr>status = 500, body = ErrorMsg (js ''Missing env vars: TELEGRAM_BOT_TOKEN, ADMIN_CHAT_ID'')\<rparr>"
proof -
  have s: "truthy_str (CRON_SECRET example_config)"
    by (simp add: example_config_def truthy_str_def js_def)
  have m: "str_or_empty (key_param \<lparr>key_param = None\<rparr>) \<noteq> str_or_empty (CRON_SECRET example_config)"
    by (simp add: example_config_def str_or_empty_def js_def)
  have a: "handler example_config example_world \<lparr>key_param = None\<rparr>
     = Some \<lparr>status = 401, body = ErrorMsg (js ''Unauthorized'')\<rparr>"
    by (rule handler_responses [of example_config "\<lparr>key_param = None\<rparr>" example_world,
          THEN conjunct1, rule_format, OF conjI [OF s m]])
  have p: "\<not> (truthy_str (CRON_SECRET (example_config\<lparr>TG_TOKEN := None\<rparr>)) \<and>
            str_or_empty (key_param example_request)
              \<noteq> str_or_empty (CRON_SECRET (example_config\<lparr>TG_TOKEN := None\<rparr>))) \<and>
      (\<not> truthy_str (TG_TOKEN (example_config\<lparr>TG_TOKEN := None\<rparr>)) \<or>
       \<not> truthy_str (ADMIN_CHAT_ID (example_config\<lparr>TG_TOKEN := None\<rparr>)))"
    by (simp add: example_config_def example_request_def str_or_empty_def truthy_str_def)
  have b: "handler (example_config\<lparr>TG_TOKEN := None\<rparr>) example_world example_request
     = Some \<lparr>status = 500, body = ErrorMsg (js ''Missing env vars: TELEGRAM_BOT_TOKEN, ADMIN_CHAT_ID'')\<rparr>"
    by (rule handler_responses [of "example_config\<lparr>TG_TOKEN := None\<rparr>" example_request example_world,
          THEN conjunct2, THEN conjunct1, rule_format, OF p])
  have f: "fetchAllUpdates (getUpdates example_world) None
     = Inr ([example_create, example_reaction_close], Some 13)"
    by (simp add: example_world_def fetch_example_feed)
  have q: "\<not> (truthy_str (CRON_SECRET example_config) \<and>
            str_or_empty (key_param example_request) \<noteq> str_or_empty (CRON_SECRET example_config))"
      "truthy_str (TG_TOKEN example_config)" "truthy_str (ADMIN_CHAT_ID example_config)"
    by (simp_all add: example_config_def example_request_def str_or_empty_def truthy_str_def js_def)
  have q': "\<not> (truthy_str (CRON_SECRET example_fallback_config) \<and>
            str_or_empty (key_param example_request) \<noteq> str_or_empty (CRON_SECRET example_fallback_config))"
      "truthy_str (TG_TOKEN example_fallback_config)" "truthy_str (ADMIN_CHAT_ID example_fallback_config)"
    by (simp_all add: example_fallback_config_def example_config_def example_request_def
        str_or_empty_def truthy_str_def js_def)
  have c: "handler example_config example_world example_request
     = Some \<lparr>status = 200, body = OkBody True (length [example_create, example_reaction_close])
          (length ([]::jsstring list))\<rparr>"
    by (rule handler_responses [of example_config example_request example_world,
          THEN conjunct2, THEN conjunct2, THEN conjunct1, rule_format,
          OF conjI [OF q(1) conjI [OF q(2) conjI [OF q(3) conjI [OF f
               conjI [OF example_kv_lines example_no_reject]]]]]])
  have d: "handler example_fallback_config example_world example_request
     = Some \<lparr>status = 200, body = OkBody True (length [example_create, example_reaction_close])
          (length [fallback_line example_world example_create])\<rparr>"
    by (rule handler_responses [of example_fallback_config example_request example_world,
          THEN conjunct2, THEN conjunct2, THEN conjunct1, rule_format,
          OF conjI [OF q'(1) conjI [OF q'(2) conjI [OF q'(3) conjI [OF f
               conjI [OF example_fallback_lines example_no_reject]]]]]])
  from c d f example_kv_lines example_fallback_lines a b show ?thesis by simp
qed
end
